theory Spec2Isabelle
  imports Complex_Main "HOL-Library.Word" "HOL-Library.Char_ord" "HOL-Library.List_Lexorder"
begin

unbundle bit_operations_syntax

section \<open>Framed message (common/Message.h, Message.cpp)\<close>

text \<open>
  Machine integers are words of the width the source declares. Sizes and positions
  (\<open>size_t\<close>, 64 bits on the platforms the code is built for) are natural numbers: the
  sums the code forms from them (\<open>sizeof(Header) + header_.length\<close>, \<open>pos + key_len\<close>)
  stay far below \<open>2 ^ 64\<close>, so they never wrap.
\<close>

type_synonym u8 = "8 word"
type_synonym u16 = "16 word"
type_synonym u32 = "32 word"

subsection \<open>Bytes and characters\<close>

text \<open>A \<open>std::string\<close> is a sequence of bytes; copying it into a byte vector and back
  converts each \<open>char\<close> to the \<open>uint8_t\<close> of the same bit pattern.\<close>

definition byte_of_char :: "char \<Rightarrow> u8" where
  "byte_of_char c = of_char c"

definition char_of_byte :: "u8 \<Rightarrow> char" where
  "char_of_byte b = char_of (unat b)"

definition bytes_of :: "string \<Rightarrow> u8 list" where
  "bytes_of s = map byte_of_char s"

definition string_of :: "u8 list \<Rightarrow> string" where
  "string_of bs = map char_of_byte bs"

subsection \<open>Network byte order\<close>

text \<open>\<open>htonl\<close>/\<open>htons\<close> followed by a byte-wise copy of the value: most significant
  byte first. \<open>rd32\<close>/\<open>rd16\<close> are the \<open>memcpy\<close> out of the buffer followed by
  \<open>ntohl\<close>/\<open>ntohs\<close>; they are only applied to slices of exactly four (two) bytes.\<close>

definition be32 :: "u32 \<Rightarrow> u8 list" where
  "be32 w = [ucast (drop_bit 24 w), ucast (drop_bit 16 w), ucast (drop_bit 8 w), ucast w]"

definition be16 :: "u16 \<Rightarrow> u8 list" where
  "be16 w = [ucast (drop_bit 8 w), ucast w]"

definition rd32 :: "u8 list \<Rightarrow> u32" where
  "rd32 bs = (case bs of
       [a, b, c, d] \<Rightarrow>
         push_bit 24 (ucast a) OR push_bit 16 (ucast b) OR push_bit 8 (ucast c) OR ucast d
     | _ \<Rightarrow> 0)"

definition rd16 :: "u8 list \<Rightarrow> u16" where
  "rd16 bs = (case bs of [a, b] \<Rightarrow> push_bit 8 (ucast a) OR ucast b | _ \<Rightarrow> 0)"

subsection \<open>The message object\<close>

text \<open>\<open>struct Header\<close> is packed: 4 + 2 + 2 + 4 + 4 + 4 + 4 = 24 bytes. The field
  \<open>length\<close> of the source is \<open>length_field\<close> here, and \<open>type\<close> is \<open>msg_type\<close>; a received
  type is any 16-bit value (the source casts without a range check).\<close>

record Header =
  magic :: u32
  version :: u16
  msg_type :: u16
  length_field :: u32
  sequence_id :: u32
  session_id :: u32
  checksum :: u32

definition sizeof_Header :: nat where
  "sizeof_Header = 24"

definition MAGIC :: u32 where
  "MAGIC = 0x54504D50"

text \<open>\<open>data_\<close> is a \<open>std::map<std::string, std::string>\<close>: an association list kept in
  strictly ascending key order (\<open>std::string\<close> compares bytes as unsigned values,
  lexicographically), which is the order in which the map is iterated.\<close>

type_synonym string_map = "(string \<times> string) list"

record Message =
  header :: Header
  data :: string_map

text \<open>\<open>data_[key] = value\<close>: insert at the key's place, or replace the value.\<close>

fun map_assign :: "string \<Rightarrow> string \<Rightarrow> string_map \<Rightarrow> string_map" where
  "map_assign k v [] = [(k, v)]"
| "map_assign k v ((k', v') # xs) =
     (if k < k' then (k, v) # (k', v') # xs
      else if k = k' then (k, v) # xs
      else (k', v') # map_assign k v xs)"

text \<open>\<open>data_.find(key)\<close>.\<close>

definition map_find :: "string_map \<Rightarrow> string \<Rightarrow> string option" where
  "map_find xs k = map_of xs k"

definition ordered_map :: "string_map \<Rightarrow> bool" where
  "ordered_map xs = sorted_wrt (<) (map fst xs)"

text \<open>\<open>Message::clear\<close> and the two constructors.\<close>

definition clear :: Message where
  "clear = \<lparr>header = \<lparr>magic = MAGIC, version = 1, msg_type = 0, length_field = 0,
       sequence_id = 0, session_id = 0, checksum = 0\<rparr>, data = []\<rparr>"

definition Message_of_type :: "u16 \<Rightarrow> Message" where
  "Message_of_type t = clear\<lparr>header := (header clear)\<lparr>msg_type := t\<rparr>\<rparr>"

definition setType :: "u16 \<Rightarrow> Message \<Rightarrow> Message" where
  "setType t m = m\<lparr>header := (header m)\<lparr>msg_type := t\<rparr>\<rparr>"

definition setSequenceId :: "u32 \<Rightarrow> Message \<Rightarrow> Message" where
  "setSequenceId s m = m\<lparr>header := (header m)\<lparr>sequence_id := s\<rparr>\<rparr>"

definition setSessionId :: "u32 \<Rightarrow> Message \<Rightarrow> Message" where
  "setSessionId s m = m\<lparr>header := (header m)\<lparr>session_id := s\<rparr>\<rparr>"

subsection \<open>Body encoding\<close>

text \<open>\<open>Message::encodeData\<close>: for each pair in map order, the key length, the key, the
  value length, the value; lengths are cast to \<open>uint32_t\<close>.\<close>

fun encode_entries :: "string_map \<Rightarrow> u8 list" where
  "encode_entries [] = []"
| "encode_entries ((k, v) # xs) =
     be32 (of_nat (length k)) @ bytes_of k @ be32 (of_nat (length v)) @ bytes_of v
       @ encode_entries xs"

definition encodeData :: "Message \<Rightarrow> u8 list" where
  "encodeData m = encode_entries (data m)"

text \<open>\<open>Message::decodeData\<close>: the \<open>while\<close> loop over \<open>pos\<close>; each \<open>break\<close> leaves the loop
  with the position already advanced past the length word just read. The result is
  the final position and the map built so far.\<close>

function decode_loop :: "u8 list \<Rightarrow> nat \<Rightarrow> string_map \<Rightarrow> nat \<times> string_map" where
  "decode_loop bs pos d =
     (if pos + 4 \<le> length bs then
        let key_len = unat (rd32 (take 4 (drop pos bs)));
            pos1 = pos + 4
        in if pos1 + key_len > length bs then (pos1, d)
           else
             let key = string_of (take key_len (drop pos1 bs));
                 pos2 = pos1 + key_len
             in if pos2 + 4 > length bs then (pos2, d)
                else
                  let val_len = unat (rd32 (take 4 (drop pos2 bs)));
                      pos3 = pos2 + 4
                  in if pos3 + val_len > length bs then (pos3, d)
                     else
                       let val = string_of (take val_len (drop pos3 bs));
                           pos4 = pos3 + val_len
                       in decode_loop bs pos4 (map_assign key val d)
      else (pos, d))"
  by pat_completeness auto
termination
  by (relation "measure (\<lambda>(bs, pos, d). length bs - pos)") auto

declare decode_loop.simps [simp del]

definition decodeData :: "u8 list \<Rightarrow> Message \<Rightarrow> bool \<times> Message" where
  "decodeData bs m =
     (let (pos, d) = decode_loop bs 0 [] in (pos = length bs, m\<lparr>data := d\<rparr>))"

subsection \<open>Setters\<close>

definition refresh_length :: "Message \<Rightarrow> Message" where
  "refresh_length m =
     m\<lparr>header := (header m)\<lparr>length_field := of_nat (length (encodeData m))\<rparr>\<rparr>"

definition addString :: "string \<Rightarrow> string \<Rightarrow> Message \<Rightarrow> Message" where
  "addString key val m = refresh_length (m\<lparr>data := map_assign key val (data m)\<rparr>)"

text \<open>\<open>std::to_string\<close> of an integer: decimal digits, a leading minus sign for a
  negative value.\<close>

function to_string_nat :: "nat \<Rightarrow> string" where
  "to_string_nat n =
     (if n < 10 then [char_of (48 + n)]
      else to_string_nat (n div 10) @ [char_of (48 + n mod 10)])"
  by pat_completeness auto
termination
  by (relation "measure id") auto

declare to_string_nat.simps [simp del]

definition to_string :: "int \<Rightarrow> string" where
  "to_string i = (if i < 0 then CHR ''-'' # to_string_nat (nat (- i)) else to_string_nat (nat i))"

text \<open>\<open>addInt\<close> takes an \<open>int32_t\<close>; the integer is passed as its value.\<close>

definition addInt :: "string \<Rightarrow> int \<Rightarrow> Message \<Rightarrow> Message" where
  "addInt key i m = addString key (to_string i) m"

definition addBool :: "string \<Rightarrow> bool \<Rightarrow> Message \<Rightarrow> Message" where
  "addBool key b m = addString key (if b then ''true'' else ''false'') m"

text \<open>\<open>addBinary\<close>: each octet in decimal followed by a comma, the last comma removed.\<close>

fun encode_octets :: "u8 list \<Rightarrow> string" where
  "encode_octets [] = []"
| "encode_octets (b # bs) = to_string_nat (unat b) @ '','' @ encode_octets bs"

definition addBinary :: "string \<Rightarrow> u8 list \<Rightarrow> Message \<Rightarrow> Message" where
  "addBinary key binary_data m =
     (let encoded = encode_octets binary_data
      in addString key (if encoded \<noteq> [] then butlast encoded else encoded) m)"

subsection \<open>Typed accessors\<close>

text \<open>\<open>std::stoi\<close> and \<open>std::stod\<close> throw; the exception is the left summand.\<close>

datatype exn = invalid_argument | out_of_range

definition isspace :: "char \<Rightarrow> bool" where
  "isspace c = (c \<in> set [CHR '' '', CHR 0x09, CHR 0x0A, CHR 0x0B, CHR 0x0C, CHR 0x0D])"

definition isdigit :: "char \<Rightarrow> bool" where
  "isdigit c = (CHR ''0'' \<le> c \<and> c \<le> CHR ''9'')"

definition digit_val :: "char \<Rightarrow> int" where
  "digit_val c = int (of_char c) - 48"

text \<open>The sign that \<open>strtol\<close>/\<open>strtod\<close> accept after the leading white space.\<close>

definition strip_sign :: "string \<Rightarrow> bool \<times> string" where
  "strip_sign s = (case s of
       [] \<Rightarrow> (False, s)
     | c # r \<Rightarrow> if c = CHR ''-'' then (True, r) else if c = CHR ''+'' then (False, r)
                else (False, s))"

text \<open>\<open>std::stoi(str)\<close>: \<open>strtol\<close> in base 10 on the whole string; no digit converted
  is \<open>std::invalid_argument\<close>, a value outside \<open>int\<close> is \<open>std::out_of_range\<close>; text after
  the digits is ignored.\<close>

definition stoi :: "string \<Rightarrow> exn + int" where
  "stoi s =
     (let (neg, r) = strip_sign (dropWhile isspace s);
          ds = takeWhile isdigit r
      in if ds = [] then Inl invalid_argument
         else
           let v = foldl (\<lambda>a c. a * 10 + digit_val c) 0 ds;
               v' = (if neg then - v else v)
           in if v' < - (2 ^ 31) \<or> 2 ^ 31 - 1 < v' then Inl out_of_range else Inr v')"

definition tolower_c :: "char \<Rightarrow> char" where
  "tolower_c c = (if CHR ''A'' \<le> c \<and> c \<le> CHR ''Z'' then char_of (of_char c + (32::nat)) else c)"

text \<open>Whether \<open>strtod\<close> finds anything to convert: after white space and an optional
  sign, a digit, a point followed by a digit, or \<open>inf\<close>/\<open>nan\<close> in any case (a
  hexadecimal number starts with the digit 0).\<close>

definition strtod_converts :: "string \<Rightarrow> bool" where
  "strtod_converts s =
     (let r = snd (strip_sign (dropWhile isspace s))
      in (case r of
            [] \<Rightarrow> False
          | c # r' \<Rightarrow>
              isdigit c
              \<or> (c = CHR ''.'' \<and> (case r' of [] \<Rightarrow> False | c' # _ \<Rightarrow> isdigit c'))
              \<or> map tolower_c (take 3 r) = ''inf''
              \<or> map tolower_c (take 3 r) = ''nan''))"

text \<open>\<open>std::stod(str)\<close>. The floating-point value of a convertible text is the C
  library's: \<open>strtod_value\<close> is that conversion, \<open>None\<close> where it reports a range
  error.\<close>

definition stod :: "(string \<Rightarrow> 'd option) \<Rightarrow> string \<Rightarrow> exn + 'd" where
  "stod strtod_value s =
     (if strtod_converts s
      then (case strtod_value s of None \<Rightarrow> Inl out_of_range | Some x \<Rightarrow> Inr x)
      else Inl invalid_argument)"

definition getString :: "Message \<Rightarrow> string \<Rightarrow> string" where
  "getString m key = (case map_find (data m) key of Some v \<Rightarrow> v | None \<Rightarrow> [])"

definition getInt :: "Message \<Rightarrow> string \<Rightarrow> exn + int" where
  "getInt m key = (case map_find (data m) key of Some v \<Rightarrow> stoi v | None \<Rightarrow> Inr 0)"

text \<open>\<open>getDouble\<close>: \<open>dzero\<close> is the double \<open>0.0\<close>.\<close>

definition getDouble :: "(string \<Rightarrow> 'd option) \<Rightarrow> 'd \<Rightarrow> Message \<Rightarrow> string \<Rightarrow> exn + 'd" where
  "getDouble strtod_value dzero m key =
     (case map_find (data m) key of Some v \<Rightarrow> stod strtod_value v | None \<Rightarrow> Inr dzero)"

definition getBool :: "Message \<Rightarrow> string \<Rightarrow> bool" where
  "getBool m key = (case map_find (data m) key of Some v \<Rightarrow> v = ''true'' | None \<Rightarrow> False)"

text \<open>\<open>std::getline(ss, token, ',')\<close> until the stream is exhausted.\<close>

fun getline_tokens :: "string \<Rightarrow> string \<Rightarrow> string list" where
  "getline_tokens cur [] = (if cur = [] then [] else [cur])"
| "getline_tokens cur (c # cs) =
     (if c = CHR '','' then cur # getline_tokens [] cs else getline_tokens (cur @ [c]) cs)"

fun getBinary_loop :: "string list \<Rightarrow> u8 list \<Rightarrow> exn + u8 list" where
  "getBinary_loop [] result = Inr result"
| "getBinary_loop (token # ts) result =
     (if token = [] then getBinary_loop ts result
      else (case stoi token of
              Inl e \<Rightarrow> Inl e
            | Inr v \<Rightarrow> getBinary_loop ts (result @ [of_int v])))"

definition getBinary :: "Message \<Rightarrow> string \<Rightarrow> exn + u8 list" where
  "getBinary m key =
     (case map_find (data m) key of
        Some v \<Rightarrow> getBinary_loop (getline_tokens [] v) []
      | None \<Rightarrow> Inr [])"

definition hasKey :: "Message \<Rightarrow> string \<Rightarrow> bool" where
  "hasKey m key = (case map_find (data m) key of Some v \<Rightarrow> True | None \<Rightarrow> False)"

subsection \<open>Serialization\<close>

definition header_bytes :: "Header \<Rightarrow> u8 list" where
  "header_bytes h =
     be32 (magic h) @ be16 (version h) @ be16 (msg_type h) @ be32 (length_field h)
       @ be32 (sequence_id h) @ be32 (session_id h) @ be32 (checksum h)"

definition serialize :: "Message \<Rightarrow> u8 list" where
  "serialize m = header_bytes (header m) @ encodeData m"

text \<open>The \<open>memcpy\<close> of the first 24 bytes into \<open>header_\<close> and the conversion of each field
  to host order.\<close>

definition parse_header :: "u8 list \<Rightarrow> Header" where
  "parse_header bs =
     \<lparr>magic = rd32 (take 4 bs),
      version = rd16 (take 2 (drop 4 bs)),
      msg_type = rd16 (take 2 (drop 6 bs)),
      length_field = rd32 (take 4 (drop 8 bs)),
      sequence_id = rd32 (take 4 (drop 12 bs)),
      session_id = rd32 (take 4 (drop 16 bs)),
      checksum = rd32 (take 4 (drop 20 bs))\<rparr>"

text \<open>\<open>Message::deserialize\<close> changes the object it is called on and returns a flag:
  the result is the flag and the object afterwards. The header is overwritten
  before the magic is compared.\<close>

definition deserialize :: "u8 list \<Rightarrow> Message \<Rightarrow> bool \<times> Message" where
  "deserialize bs m =
     (if length bs < sizeof_Header then (False, m)
      else
        let m1 = m\<lparr>header := parse_header bs\<rparr>
        in if magic (header m1) \<noteq> 0x54504D50 then (False, m1)
           else if length bs \<ge> sizeof_Header + unat (length_field (header m1))
           then decodeData (take (unat (length_field (header m1))) (drop sizeof_Header bs)) m1
           else (False, m1))"

definition serializeStream :: "Message \<Rightarrow> u8 list" where
  "serializeStream m = be32 (of_nat (length (serialize m))) @ serialize m"

definition deserializeStream :: "u8 list \<Rightarrow> Message \<Rightarrow> bool \<times> Message" where
  "deserializeStream bs m =
     (if length bs < 4 then (False, m)
      else
        let len = unat (rd32 (take 4 bs))
        in if length bs < 4 + len then (False, m)
           else deserialize (take len (drop 4 bs)) m)"

subsection \<open>Checksum\<close>

text \<open>\<open>calculateCRC32\<close>: the inner loop runs eight times per byte;
  \<open>-(static_cast<int32_t>(crc) & 1)\<close> is all ones or zero.\<close>

definition crc_bit :: "u32 \<Rightarrow> u32" where
  "crc_bit crc = drop_bit 1 crc XOR (0xEDB88320 AND (- (crc AND 1)))"

definition crc_byte :: "u32 \<Rightarrow> u8 \<Rightarrow> u32" where
  "crc_byte crc b = (crc_bit ^^ 8) (crc XOR ucast b)"

definition calculateCRC32 :: "u8 list \<Rightarrow> u32" where
  "calculateCRC32 bs = NOT (foldl crc_byte 0xFFFFFFFF bs)"

definition zero_checksum :: "Message \<Rightarrow> Message" where
  "zero_checksum m = m\<lparr>header := (header m)\<lparr>checksum := 0\<rparr>\<rparr>"

definition calculateChecksum :: "Message \<Rightarrow> Message" where
  "calculateChecksum m =
     m\<lparr>header := (header m)\<lparr>checksum := calculateCRC32 (serialize (zero_checksum m))\<rparr>\<rparr>"

definition verifyChecksum :: "Message \<Rightarrow> bool" where
  "verifyChecksum m = (checksum (header m) = calculateCRC32 (serialize (zero_checksum m)))"

definition isValid :: "Message \<Rightarrow> bool" where
  "isValid m = (magic (header m) = 0x54504D50 \<and> version (header m) = 1 \<and> verifyChecksum m)"


subsection \<open>Message factory\<close>

definition RESERVE_SEAT :: u16 where "RESERVE_SEAT = 7"
definition PURCHASE_TICKET :: u16 where "PURCHASE_TICKET = 8"
definition DELETE_GROUP_MEMBER :: u16 where "DELETE_GROUP_MEMBER = 11"
definition MULTICAST_UPDATE :: u16 where "MULTICAST_UPDATE = 14"
definition RESPONSE_SUCCESS :: u16 where "RESPONSE_SUCCESS = 15"
definition RESPONSE_ERROR :: u16 where "RESPONSE_ERROR = 16"

text \<open>The factory functions take their fields as a \<open>std::map\<close>, which the callers
  build from a braced list of pairs: each pair is inserted unless its key is already
  there.\<close>

definition map_insert :: "string \<Rightarrow> string \<Rightarrow> string_map \<Rightarrow> string_map" where
  "map_insert k v xs = (case map_find xs k of None \<Rightarrow> map_assign k v xs | Some w \<Rightarrow> xs)"

definition std_map :: "(string \<times> string) list \<Rightarrow> string_map" where
  "std_map kvs = foldl (\<lambda>m (k, v). map_insert k v m) [] kvs"

text \<open>The \<open>for\<close> loop over the map that calls \<open>addString\<close> on each pair.\<close>

fun add_all :: "string_map \<Rightarrow> Message \<Rightarrow> Message" where
  "add_all [] m = m"
| "add_all ((k, v) # kvs) m = add_all kvs (addString k v m)"

definition createSuccessResponse :: "string \<Rightarrow> (string \<times> string) list \<Rightarrow> Message" where
  "createSuccessResponse message_text dat =
     (let response = Message_of_type RESPONSE_SUCCESS;
          response1 = (if message_text \<noteq> [] then addString ''message'' message_text response
                       else response)
      in calculateChecksum (add_all (std_map dat) response1))"

definition createErrorResponse :: "string \<Rightarrow> int \<Rightarrow> Message" where
  "createErrorResponse error_message error_code =
     calculateChecksum (addInt ''error_code'' error_code
       (addString ''error'' error_message (Message_of_type RESPONSE_ERROR)))"

definition createMulticastUpdate :: "string \<Rightarrow> (string \<times> string) list \<Rightarrow> Message" where
  "createMulticastUpdate update_type dat =
     calculateChecksum (add_all (std_map dat)
       (addString ''update_type'' update_type (Message_of_type MULTICAST_UPDATE)))"

section \<open>Persistence (common/Database.h, Database.cpp)\<close>

text \<open>
  \<open>VehicleType\<close> and \<open>TicketType\<close> are enumerations over \<open>uint8_t\<close>; the handlers obtain
  them by a cast from a received integer, so any octet can occur; the \<open>type\<close> column
  only ever receives such an octet (\<open>registerVehicle\<close> binds the cast enumeration).
  \<open>int\<close> values (seat counts, capacities, counters) are integers; the sums and
  differences the handlers form from them are assumed to stay inside 32 bits.
  A \<open>double\<close> is the rational number it denotes exactly: the only arithmetic the
  modelled code does on doubles is \<open>1.0 * passengers\<close>, which is exact in binary
  floating point, and a literal such as \<open>0.10\<close> is the double nearest to it.
\<close>

type_synonym VehicleType = u8
type_synonym TicketType = u8

definition BUS :: VehicleType where "BUS = 1"
definition TRAM :: VehicleType where "TRAM = 2"
definition TROLLEYBUS :: VehicleType where "TROLLEYBUS = 3"

definition INDIVIDUAL :: TicketType where "INDIVIDUAL = 1"
definition GROUP_FAMILY :: TicketType where "GROUP_FAMILY = 2"
definition GROUP_BUSINESS :: TicketType where "GROUP_BUSINESS = 3"
definition GROUP_TOURIST :: TicketType where "GROUP_TOURIST = 4"

record User =
  urn :: string
  name :: string
  age :: int
  registration_date :: string
  u_active :: bool
  pin_hash :: string

text \<open>A row of \<open>groups\<close> (the \<open>members\<close> vector of \<open>struct Group\<close> is not a column).\<close>

record Group =
  group_id :: int
  group_name :: string
  leader_urn :: string
  creation_date :: string
  g_active :: bool

text \<open>A row of \<open>group_members\<close>.\<close>

record GroupMember =
  gm_group_id :: int
  member_urn :: string
  join_date :: string
  gm_active :: bool

record Vehicle =
  uri :: string
  vtype :: VehicleType
  capacity :: int
  available_seats :: int
  route :: string
  v_active :: bool
  last_update :: string

record Ticket =
  ticket_id :: string
  user_urn :: string
  ttype :: TicketType
  t_vehicle_type :: VehicleType
  t_route :: string
  price :: rat
  discount :: rat
  purchase_date :: string
  seat_number :: string
  used :: bool

record Payment =
  transaction_id :: string
  p_ticket_id :: string
  amount :: rat
  payment_method :: string
  payment_date :: string
  successful :: bool

subsection \<open>The SQLite connection\<close>

text \<open>
  The tables in row order (a \<open>SELECT ... LIMIT 1\<close> without \<open>ORDER BY\<close> returns the first
  matching row of the scan). \<open>groups_seq\<close> is the \<open>AUTOINCREMENT\<close> counter of \<open>groups\<close>.
  The schema's constraints are those of the \<open>CREATE TABLE\<close> statements, with foreign
  keys enforced (\<open>PRAGMA foreign_keys = ON\<close> in \<open>Database::initialize\<close>).
\<close>

text \<open>
  Every text the code binds goes through \<open>sqlite3_bind_text(stmt, i, s.c_str(), -1, ...)\<close>:
  the length \<open>-1\<close> makes the engine read up to the first zero byte, so what reaches
  the statement is the \<open>std::string\<close> cut at its first NUL. A text column read back
  through \<open>sqlite3_column_text\<close> into a \<open>std::string\<close> is cut the same way.
\<close>

definition c_str :: "string \<Rightarrow> string" where
  "c_str s = takeWhile (\<lambda>c. c \<noteq> CHR 0x00) s"

record tables =
  users :: "User list"
  groups :: "Group list"
  groups_seq :: int
  group_members :: "GroupMember list"
  vehicles :: "Vehicle list"
  tickets :: "Ticket list"
  payments :: "Payment list"

datatype sql =
    BEGIN_TRANSACTION | COMMIT | ROLLBACK
  | SELECT_FROM string | INSERT_INTO string | INSERT_OR_REPLACE_INTO string
  | UPDATE string | DELETE_FROM string

text \<open>
  A connection: the tables, the snapshot taken by \<open>BEGIN\<close> while a transaction is open,
  the error pair of \<open>setLastError\<close>, and two things that belong to the engine rather
  than to the class: \<open>journal\<close> records every statement the connection executes, in
  order, and \<open>busy\<close> is the engine's answer to each of them in turn (\<open>True\<close>: the
  statement ends with \<open>SQLITE_BUSY\<close> because another connection holds the lock; an
  exhausted list means never busy). No busy timeout is configured in the source.
  Preparing a statement always succeeds: the SQL texts are constants over tables
  that \<open>createTables\<close> has created.
\<close>

record Database =
  store :: tables
  snapshot :: "tables option"
  last_error :: string
  last_error_code :: int
  busy :: "bool list"
  journal :: "sql list"

definition SQLITE_ERROR :: int where "SQLITE_ERROR = 1"
definition SQLITE_BUSY :: int where "SQLITE_BUSY = 5"
definition SQLITE_NOTFOUND :: int where "SQLITE_NOTFOUND = 12"
definition SQLITE_CONSTRAINT :: int where "SQLITE_CONSTRAINT = 19"
definition SQLITE_DONE :: int where "SQLITE_DONE = 101"

definition setLastError :: "string \<Rightarrow> int \<Rightarrow> Database \<Rightarrow> Database" where
  "setLastError error code db = db\<lparr>last_error := error, last_error_code := code\<rparr>"

definition clearLastError :: "Database \<Rightarrow> Database" where
  "clearLastError db = db\<lparr>last_error := [], last_error_code := 0\<rparr>"

text \<open>Running one statement: it is journalled, and the engine says whether it is busy.\<close>

definition run_statement :: "sql \<Rightarrow> Database \<Rightarrow> bool \<times> Database" where
  "run_statement q db =
     (let db1 = db\<lparr>journal := journal db @ [q]\<rparr>
      in (case busy db1 of [] \<Rightarrow> (False, db1) | b # bs \<Rightarrow> (b, db1\<lparr>busy := bs\<rparr>)))"

subsection \<open>Transactions\<close>

text \<open>\<open>executeSQL\<close> of the three literal statements; the engine refuses a nested
  \<open>BEGIN\<close> and a \<open>COMMIT\<close>/\<open>ROLLBACK\<close> outside a transaction.\<close>

definition beginTransaction :: "Database \<Rightarrow> bool \<times> Database" where
  "beginTransaction db =
     (let (b, db1) = run_statement BEGIN_TRANSACTION db
      in if b then (False, setLastError ''database is locked'' SQLITE_BUSY db1)
         else (case snapshot db1 of
                 Some s \<Rightarrow> (False, setLastError
                     ''cannot start a transaction within a transaction'' SQLITE_ERROR db1)
               | None \<Rightarrow> (True, db1\<lparr>snapshot := Some (store db1)\<rparr>)))"

definition commitTransaction :: "Database \<Rightarrow> bool \<times> Database" where
  "commitTransaction db =
     (let (b, db1) = run_statement COMMIT db
      in if b then (False, setLastError ''database is locked'' SQLITE_BUSY db1)
         else (case snapshot db1 of
                 None \<Rightarrow> (False, setLastError
                     ''cannot commit - no transaction is active'' SQLITE_ERROR db1)
               | Some s \<Rightarrow> (True, db1\<lparr>snapshot := None\<rparr>)))"

definition rollbackTransaction :: "Database \<Rightarrow> bool \<times> Database" where
  "rollbackTransaction db =
     (let (b, db1) = run_statement ROLLBACK db
      in if b then (False, setLastError ''database is locked'' SQLITE_BUSY db1)
         else (case snapshot db1 of
                 None \<Rightarrow> (False, setLastError
                     ''cannot rollback - no transaction is active'' SQLITE_ERROR db1)
               | Some s \<Rightarrow> (True, db1\<lparr>store := s, snapshot := None\<rparr>)))"

subsection \<open>Groups\<close>

text \<open>\<open>nowISO()\<close> reads the clock; the text it returns is the argument \<open>now\<close>.\<close>

definition getGroupIdByName :: "string \<Rightarrow> Database \<Rightarrow> int \<times> Database" where
  "getGroupIdByName gname db =
     (let (b, db1) = run_statement (SELECT_FROM ''groups'') db
      in if b then (- 1, db1)
         else (case find (\<lambda>g. group_name g = c_str gname \<and> g_active g)
                      (groups (store db1)) of
                 Some g \<Rightarrow> (group_id g, db1)
               | None \<Rightarrow> (- 1, db1)))"

definition userExists :: "string \<Rightarrow> Database \<Rightarrow> bool \<times> Database" where
  "userExists u db =
     (let (b, db1) = run_statement (SELECT_FROM ''users'') db
      in if b then (False, db1)
         else (c_str u \<in> set (map urn (users (store db1))), db1))"

definition getGroupLeader :: "string \<Rightarrow> Database \<Rightarrow> string \<times> Database" where
  "getGroupLeader gname db =
     (let (b, db1) = run_statement (SELECT_FROM ''groups'') db
      in if b then ([], db1)
         else (case find (\<lambda>g. group_name g = c_str gname \<and> g_active g)
                      (groups (store db1)) of
                 Some g \<Rightarrow> (c_str (leader_urn g), db1)
               | None \<Rightarrow> ([], db1)))"

text \<open>Whether a row may enter \<open>group_members\<close>: both foreign keys must resolve.\<close>

definition member_keys_resolve :: "int \<Rightarrow> string \<Rightarrow> tables \<Rightarrow> bool" where
  "member_keys_resolve gid u t =
     (gid \<in> set (map group_id (groups t)) \<and> u \<in> set (map urn (users t)))"

definition same_member :: "int \<Rightarrow> string \<Rightarrow> GroupMember \<Rightarrow> bool" where
  "same_member gid u r = (gm_group_id r = gid \<and> member_urn r = u)"

definition createGroup :: "Group \<Rightarrow> string \<Rightarrow> Database \<Rightarrow> bool \<times> Database" where
  "createGroup grp now db =
     (let (b1, db1) = run_statement (INSERT_INTO ''groups'') db;
          creation = (if creation_date grp = [] then now else creation_date grp);
          gname = c_str (group_name grp);
          leader = c_str (leader_urn grp);
          rc = (if b1 then SQLITE_BUSY
                else if gname \<in> set (map group_name (groups (store db1)))
                        \<or> leader \<notin> set (map urn (users (store db1)))
                then SQLITE_CONSTRAINT else SQLITE_DONE)
      in if rc \<noteq> SQLITE_DONE
         then (False, setLastError ''Failed to create group (is name unique?)'' rc db1)
         else
           let new_id = groups_seq (store db1) + 1;
               row = \<lparr>group_id = new_id, group_name = gname, leader_urn = leader,
                      creation_date = c_str creation, g_active = g_active grp\<rparr>;
               db2 = db1\<lparr>store := (store db1)\<lparr>groups := groups (store db1) @ [row],
                                               groups_seq := new_id\<rparr>\<rparr>;
               (b2, db3) = run_statement (SELECT_FROM ''groups'') db2;
               gid = (if b2 then - 1
                      else (case find (\<lambda>g. group_name g = gname) (groups (store db3)) of
                              Some g \<Rightarrow> group_id g | None \<Rightarrow> - 1))
           in if gid < 0 then (False, setLastError ''Failed to resolve new group_id'' (- 1) db3)
              else
                let (b3, db4) = run_statement (INSERT_OR_REPLACE_INTO ''group_members'') db3;
                    r3 = (if b3 then SQLITE_BUSY
                          else if member_keys_resolve gid leader (store db4)
                          then SQLITE_DONE else SQLITE_CONSTRAINT)
                in if r3 \<noteq> SQLITE_DONE
                   then (False, setLastError ''Failed to add leader as group member'' r3 db4)
                   else
                     (True, db4\<lparr>store := (store db4)\<lparr>group_members :=
                        filter (\<lambda>r. \<not> same_member gid leader r) (group_members (store db4))
                        @ [\<lparr>gm_group_id = gid, member_urn = leader, join_date = c_str now,
                             gm_active = True\<rparr>]\<rparr>\<rparr>))"

definition addUserToGroup :: "string \<Rightarrow> string \<Rightarrow> string \<Rightarrow> Database \<Rightarrow> bool \<times> Database" where
  "addUserToGroup u gname now db =
     (let db0 = clearLastError db;
          (ex, db1) = userExists u db0
      in if \<not> ex then (False, setLastError ''User not found'' SQLITE_NOTFOUND db1)
         else
           let (gid, db2) = getGroupIdByName gname db1
           in if gid \<le> 0 then (False, setLastError ''Group not found'' SQLITE_NOTFOUND db2)
              else
                let (b3, db3) = run_statement (SELECT_FROM ''group_members'') db2;
                    hit = (if b3 then None
                           else find (same_member gid (c_str u)) (group_members (store db3)))
                in (case hit of
                      Some r \<Rightarrow>
                        if gm_active r
                        then (False, setLastError ''User already in group'' SQLITE_CONSTRAINT db3)
                        else
                          let (b4, db4) = run_statement (UPDATE ''group_members'') db3
                          in if b4
                             then (False, setLastError ''Failed to reactivate user in group''
                                     SQLITE_BUSY db4)
                             else (True, db4\<lparr>store := (store db4)\<lparr>group_members :=
                                     map (\<lambda>r. if same_member gid (c_str u) r
                                               then r\<lparr>gm_active := True, join_date := c_str now\<rparr>
                                               else r)
                                       (group_members (store db4))\<rparr>\<rparr>)
                    | None \<Rightarrow>
                        let (b4, db4) = run_statement (INSERT_INTO ''group_members'') db3;
                            rc = (if b4 then SQLITE_BUSY
                                  else if list_ex (same_member gid (c_str u))
                                            (group_members (store db4))
                                  then SQLITE_CONSTRAINT
                                  else if member_keys_resolve gid (c_str u) (store db4)
                                  then SQLITE_DONE else SQLITE_CONSTRAINT)
                        in if rc \<noteq> SQLITE_DONE
                           then (False, setLastError ''Failed to add user to group'' rc db4)
                           else (True, db4\<lparr>store := (store db4)\<lparr>group_members :=
                                   group_members (store db4)
                                   @ [\<lparr>gm_group_id = gid, member_urn = c_str u,
                                        join_date = c_str now, gm_active = True\<rparr>]\<rparr>\<rparr>)))"

definition removeUserFromGroup :: "string \<Rightarrow> string \<Rightarrow> Database \<Rightarrow> bool \<times> Database" where
  "removeUserFromGroup u gname db =
     (let db0 = clearLastError db;
          (gid, db1) = getGroupIdByName gname db0
      in if gid \<le> 0 then (False, setLastError ''Group not found'' SQLITE_NOTFOUND db1)
         else
           let (b2, db2) = run_statement (DELETE_FROM ''group_members'') db1
           in if b2 then (False, setLastError ''Failed to remove user from group'' SQLITE_BUSY db2)
              else
                let changes = length (filter (same_member gid (c_str u))
                                        (group_members (store db2)));
                    db3 = db2\<lparr>store := (store db2)\<lparr>group_members :=
                            filter (\<lambda>r. \<not> same_member gid (c_str u) r)
                              (group_members (store db2))\<rparr>\<rparr>
                in if changes = 0 then (False, setLastError ''User not in group'' SQLITE_NOTFOUND db3)
                   else (True, db3))"

subsection \<open>Vehicles, tickets, payments\<close>

text \<open>\<open>extractVehicle\<close>: the row as the \<open>Vehicle\<close> object the code builds from it.\<close>

definition extractVehicle :: "Vehicle \<Rightarrow> Vehicle" where
  "extractVehicle v =
     v\<lparr>uri := c_str (uri v), route := c_str (route v), last_update := c_str (last_update v)\<rparr>"

definition getVehicle :: "string \<Rightarrow> Database \<Rightarrow> Vehicle option \<times> Database" where
  "getVehicle u db =
     (let (b, db1) = run_statement (SELECT_FROM ''vehicles'') db
      in if b then (None, db1)
         else (map_option extractVehicle
                 (find (\<lambda>v. uri v = c_str u) (vehicles (store db1))), db1))"

definition getVehicleByRouteAndType ::
    "string \<Rightarrow> VehicleType \<Rightarrow> Database \<Rightarrow> Vehicle option \<times> Database" where
  "getVehicleByRouteAndType r t db =
     (let (b, db1) = run_statement (SELECT_FROM ''vehicles'') db
      in if b then (None, db1)
         else (map_option extractVehicle
                 (find (\<lambda>v. route v = c_str r \<and> vtype v = t) (vehicles (store db1))), db1))"

definition updateSeatAvailability :: "string \<Rightarrow> int \<Rightarrow> Database \<Rightarrow> bool \<times> Database" where
  "updateSeatAvailability u seats db =
     (let (b, db1) = run_statement (UPDATE ''vehicles'') db
      in if b then (False, setLastError ''Failed to update available seats'' SQLITE_BUSY db1)
         else (True, db1\<lparr>store := (store db1)\<lparr>vehicles :=
                 map (\<lambda>v. if uri v = c_str u then v\<lparr>available_seats := seats\<rparr> else v)
                   (vehicles (store db1))\<rparr>\<rparr>))"

text \<open>The row that the \<open>INSERT\<close> of \<open>createTicket\<close> writes: every text cut as bound.\<close>

definition ticket_row :: "Ticket \<Rightarrow> Ticket" where
  "ticket_row t =
     t\<lparr>ticket_id := c_str (ticket_id t), user_urn := c_str (user_urn t),
       t_route := c_str (t_route t), purchase_date := c_str (purchase_date t),
       seat_number := c_str (seat_number t)\<rparr>"

definition createTicket :: "Ticket \<Rightarrow> Database \<Rightarrow> bool \<times> Database" where
  "createTicket t db =
     (let (b, db1) = run_statement (INSERT_INTO ''tickets'') db;
          row = ticket_row t;
          rc = (if b then SQLITE_BUSY
                else if ticket_id row \<in> set (map ticket_id (tickets (store db1)))
                        \<or> user_urn row \<notin> set (map urn (users (store db1)))
                then SQLITE_CONSTRAINT else SQLITE_DONE)
      in if rc \<noteq> SQLITE_DONE then (False, setLastError ''Failed to insert ticket'' rc db1)
         else (True, db1\<lparr>store := (store db1)\<lparr>tickets := tickets (store db1) @ [row]\<rparr>\<rparr>))"

text \<open>The row that the \<open>INSERT\<close> of \<open>recordPayment\<close> writes. An empty \<open>ticket_id\<close> is
  bound as \<open>NULL\<close>, which no foreign key checks (and which the row shows as the empty
  text); any other is bound as text, cut like the rest.\<close>

definition payment_row :: "Payment \<Rightarrow> Payment" where
  "payment_row p =
     p\<lparr>transaction_id := c_str (transaction_id p), p_ticket_id := c_str (p_ticket_id p),
       payment_method := c_str (payment_method p), payment_date := c_str (payment_date p)\<rparr>"

definition recordPayment :: "Payment \<Rightarrow> Database \<Rightarrow> bool \<times> Database" where
  "recordPayment p db =
     (let (b, db1) = run_statement (INSERT_INTO ''payments'') db;
          row = payment_row p;
          rc = (if b then SQLITE_BUSY
                else if transaction_id row \<in> set (map transaction_id (payments (store db1)))
                then SQLITE_CONSTRAINT
                else if p_ticket_id p = [] then SQLITE_DONE
                else if p_ticket_id row \<in> set (map ticket_id (tickets (store db1)))
                then SQLITE_DONE else SQLITE_CONSTRAINT)
      in if rc \<noteq> SQLITE_DONE then (False, setLastError ''Failed to insert payment'' rc db1)
         else (True, db1\<lparr>store := (store db1)\<lparr>payments := payments (store db1) @ [row]\<rparr>\<rparr>))"

definition calculateTicketPrice :: "VehicleType \<Rightarrow> TicketType \<Rightarrow> int \<Rightarrow> rat \<Rightarrow> rat \<Rightarrow> rat" where
  "calculateTicketPrice vt tt passengers distance time_minutes = 1"

text \<open>The literal \<open>0.10\<close>: the double nearest to one tenth,
  \<open>3602879701896397 * 2 ^ -55\<close>.\<close>

definition double_0_10 :: rat where
  "double_0_10 = 3602879701896397 / 36028797018963968"

definition calculateDiscount :: "string \<Rightarrow> TicketType \<Rightarrow> int \<Rightarrow> rat" where
  "calculateDiscount u ticket_type group_size =
     (if ticket_type = GROUP_FAMILY then double_0_10
      else if group_size \<ge> 3 then double_0_10
      else 0)"


section \<open>Central server (server/CentralServer.cpp, server/ServerBase.cpp)\<close>

text \<open>
  The clock as one request sees it: \<open>now_text\<close> is \<open>getCurrentTimestamp()\<close> and
  \<open>nowISO()\<close>, \<open>now_epoch\<close> is \<open>std::time(nullptr)\<close>. The server state a handler
  touches: the pooled connection it obtains, the session table (a \<open>std::map\<close> that is
  only searched and updated in place here) and the two static counters of the id
  generators. What a handler sends is what it returns: a response to the requesting
  client, or an update for the subscribers.
\<close>

record clock =
  now_text :: string
  now_epoch :: int

record ClientSession =
  cs_session_id :: string
  cs_user_urn :: string
  authenticated :: bool
  last_activity :: int

record CentralServer =
  db :: Database
  client_sessions :: "(string \<times> ClientSession) list"
  ticket_counter :: int
  transaction_counter :: int

datatype sent = Response Message | Multicast Message

definition sendErrorResponse :: "string \<Rightarrow> int \<Rightarrow> sent" where
  "sendErrorResponse error code = Response (createErrorResponse error code)"

text \<open>The default argument \<open>code = -1\<close> of \<open>ServerBase::sendErrorResponse\<close>.\<close>

definition sendErrorResponse_default :: "string \<Rightarrow> sent" where
  "sendErrorResponse_default error = sendErrorResponse error (- 1)"

definition sendSuccessResponse :: "string \<Rightarrow> sent" where
  "sendSuccessResponse message_text = Response (createSuccessResponse message_text [])"

definition sendMulticastUpdate :: "string \<Rightarrow> (string \<times> string) list \<Rightarrow> sent" where
  "sendMulticastUpdate update_type dat = Multicast (createMulticastUpdate update_type dat)"

definition generateTicketId :: "clock \<Rightarrow> CentralServer \<Rightarrow> string \<times> CentralServer" where
  "generateTicketId clk srv =
     (let c = ticket_counter srv + 1
      in (''TKT_'' @ to_string c @ ''_'' @ to_string (now_epoch clk), srv\<lparr>ticket_counter := c\<rparr>))"

definition generateTransactionId :: "clock \<Rightarrow> CentralServer \<Rightarrow> string \<times> CentralServer" where
  "generateTransactionId clk srv =
     (let c = transaction_counter srv + 1
      in (''TX_'' @ to_string c @ ''_'' @ to_string (now_epoch clk),
          srv\<lparr>transaction_counter := c\<rparr>))"

text \<open>\<open>it->second.last_activity = now\<close> on the entry found for \<open>sid\<close>.\<close>

definition touch_session ::
    "string \<Rightarrow> int \<Rightarrow> (string \<times> ClientSession) list \<Rightarrow> (string \<times> ClientSession) list" where
  "touch_session sid t ss =
     map (\<lambda>(k, s). if k = sid then (k, s\<lparr>last_activity := t\<rparr>) else (k, s)) ss"

text \<open>\<open>std::to_string(double)\<close> prints with \<open>%f\<close>: six decimals, rounded to nearest.\<close>

definition to_string_double :: "rat \<Rightarrow> string" where
  "to_string_double r =
     (let a = \<bar>r\<bar> * 1000000;
          f = \<lfloor>a\<rfloor>;
          d = a - of_int f;
          n = nat (if d < 1 / 2 then f else if 1 / 2 < d then f + 1
                   else if even f then f else f + 1);
          frac = to_string_nat (n mod 1000000)
      in (if r < 0 then ''-'' else []) @ to_string_nat (n div 1000000) @ ''.''
         @ replicate (6 - length frac) (CHR ''0'') @ frac)"

subsection \<open>ReserveSeat\<close>

text \<open>The \<open>for\<close> loop over \<open>{BUS, TRAM, TROLLEYBUS}\<close> that skips the requested kind and
  stops at the first kind with a vehicle on the route.\<close>

fun fallback_scan ::
    "string \<Rightarrow> VehicleType \<Rightarrow> VehicleType list \<Rightarrow> Database
      \<Rightarrow> (Vehicle option \<times> VehicleType) \<times> Database" where
  "fallback_scan r vehicle_type [] dbc = ((None, vehicle_type), dbc)"
| "fallback_scan r vehicle_type (t # ts) dbc =
     (if t = vehicle_type then fallback_scan r vehicle_type ts dbc
      else (case getVehicleByRouteAndType r t dbc of
              (Some v2, dbc1) \<Rightarrow> ((Some v2, t), dbc1)
            | (None, dbc1) \<Rightarrow> fallback_scan r vehicle_type ts dbc1))"

text \<open>\<open>getInt\<close> can throw; nothing in \<open>processMessage\<close> or in the connection loop
  catches, so an exception ends the handler (and the process) without a result.\<close>

definition handleSeatReservation ::
    "Message \<Rightarrow> CentralServer \<Rightarrow> exn + (sent list \<times> CentralServer)" where
  "handleSeatReservation message srv =
     (case getInt message ''vehicle_type'' of
        Inl e \<Rightarrow> Inl e
      | Inr vt \<Rightarrow>
          let vehicle_type0 = (of_int vt :: VehicleType);
              route0 = (if hasKey message ''route'' then getString message ''route'' else []);
              uri0 = (if hasKey message ''uri'' then getString message ''uri'' else []);
              urn0 = (if hasKey message ''urn'' then getString message ''urn'' else [])
          in if urn0 = [] then Inr ([sendErrorResponse_default ''Missing user URN''], srv)
             else
               let (by_uri, db1) = (if uri0 \<noteq> [] then getVehicle uri0 (db srv)
                                    else (None, db srv));
                   vehicle_type1 = (case by_uri of Some v \<Rightarrow> vtype v | None \<Rightarrow> vehicle_type0);
                   route1 = (case by_uri of Some v \<Rightarrow> route v | None \<Rightarrow> route0);
                   ((vehicle, vehicle_type2), db2) =
                     (if by_uri = None \<and> route1 \<noteq> []
                      then (case getVehicleByRouteAndType route1 vehicle_type1 db1 of
                              (Some v, dbc) \<Rightarrow> ((Some v, vehicle_type1), dbc)
                            | (None, dbc) \<Rightarrow>
                                fallback_scan route1 vehicle_type1 [BUS, TRAM, TROLLEYBUS] dbc)
                      else ((by_uri, vehicle_type1), db1))
               in (case vehicle of
                     None \<Rightarrow>
                       Inr ([sendErrorResponse_default ''Vehicle/route not found''],
                            srv\<lparr>db := db2\<rparr>)
                   | Some v \<Rightarrow>
                       let route2 = (if route1 = [] then route v else route1)
                       in if available_seats v \<le> 0
                          then Inr ([sendErrorResponse_default
                                       ''No available seats for this route/vehicle''],
                                    srv\<lparr>db := db2\<rparr>)
                          else
                            let new_available = available_seats v - 1;
                                (ok, db3) = updateSeatAvailability (uri v) new_available db2
                            in if \<not> ok
                               then Inr ([sendErrorResponse_default ''Failed to reserve seat''],
                                         srv\<lparr>db := db3\<rparr>)
                               else
                                 let fields = [(''route'', route2), (''vehicle_uri'', uri v),
                                               (''available_seats'', to_string new_available)]
                                 in Inr ([Response (createSuccessResponse
                                            ''Seat reserved successfully'' fields),
                                          sendMulticastUpdate ''seat_reserved'' fields],
                                         srv\<lparr>db := db3\<rparr>)))"

text \<open>\<open>try_reserve_one\<close> of the concurrent reservation test: the same read, check and
  update, inside a transaction.\<close>

definition try_reserve_one :: "string \<Rightarrow> Database \<Rightarrow> bool \<times> Database" where
  "try_reserve_one u dbc =
     (let (began, db1) = beginTransaction dbc
      in if \<not> began then (False, db1)
         else
           (case getVehicle u db1 of
              (None, db2) \<Rightarrow> (False, snd (rollbackTransaction db2))
            | (Some v, db2) \<Rightarrow>
                if available_seats v \<le> 0 then (False, snd (rollbackTransaction db2))
                else
                  let new_avail = available_seats v - 1;
                      (ok, db3) = updateSeatAvailability u new_avail db2
                  in if \<not> ok then (False, snd (rollbackTransaction db3))
                     else commitTransaction db3))"

subsection \<open>PurchaseTicket\<close>

text \<open>The ticket loop: \<open>n\<close> iterations remain, \<open>i\<close> is the loop counter, \<open>proto\<close> holds
  the fields that are the same for every ticket. The result says whether every
  insert succeeded, and gives the ids inserted.\<close>

fun create_tickets ::
    "nat \<Rightarrow> int \<Rightarrow> Ticket \<Rightarrow> Vehicle \<Rightarrow> clock \<Rightarrow> CentralServer \<Rightarrow> string list
      \<Rightarrow> bool \<times> string list \<times> CentralServer" where
  "create_tickets 0 i proto v clk srv ids = (True, ids, srv)"
| "create_tickets (Suc n) i proto v clk srv ids =
     (let (tid, srv1) = generateTicketId clk srv;
          t = proto\<lparr>ticket_id := tid,
                    seat_number := to_string (capacity v - available_seats v + i + 1)\<rparr>;
          (ok, db1) = createTicket t (db srv1);
          srv2 = srv1\<lparr>db := db1\<rparr>
      in if \<not> ok then (False, ids, srv2)
         else create_tickets n (i + 1) proto v clk srv2 (ids @ [tid]))"

definition with_db_error :: "string \<Rightarrow> Database \<Rightarrow> string" where
  "with_db_error text dbc = text @ (if last_error dbc = [] then [] else '': '' @ last_error dbc)"

text \<open>The part of \<open>handleTicketPurchase\<close> after the vehicle is resolved and has seats.\<close>

definition purchase_resolved ::
    "string \<Rightarrow> TicketType \<Rightarrow> VehicleType \<Rightarrow> string \<Rightarrow> int \<Rightarrow> Vehicle \<Rightarrow> clock \<Rightarrow> CentralServer
      \<Rightarrow> sent list \<times> CentralServer" where
  "purchase_resolved urn0 ticket_type vehicle_type0 route0 passengers v clk srv =
     (let price_each = calculateTicketPrice vehicle_type0 ticket_type 1 1 30;
          discount0 = 0;
          total_amount = price_each * of_int passengers;
          when_buy = now_text clk;
          proto = \<lparr>ticket_id = [], user_urn = urn0, ttype = ticket_type,
                   t_vehicle_type = vehicle_type0, t_route = route0, price = price_each,
                   discount = discount0, purchase_date = when_buy, seat_number = [],
                   used = False\<rparr>;
          (made, ticket_ids, srv1) = create_tickets (nat passengers) 0 proto v clk srv []
      in if \<not> made
         then ([sendErrorResponse
                  (with_db_error ''Failed to create ticket record'' (db srv1)) 500], srv1)
         else
           let (txid, srv2) = generateTransactionId clk srv1;
               p = \<lparr>transaction_id = txid,
                    p_ticket_id = (case ticket_ids of [] \<Rightarrow> [] | first # rest \<Rightarrow> first),
                    amount = total_amount, payment_method = ''card'',
                    payment_date = when_buy, successful = True\<rparr>;
               (paid, db3) = recordPayment p (db srv2);
               srv3 = srv2\<lparr>db := db3\<rparr>
           in if \<not> paid
              then ([sendErrorResponse
                       (with_db_error ''Failed to record payment'' db3) 500], srv3)
              else
                let new_available = available_seats v - passengers;
                    (ok, db4) = updateSeatAvailability (uri v) new_available db3;
                    srv4 = srv3\<lparr>db := db4\<rparr>
                in if \<not> ok
                   then ([sendErrorResponse
                            (with_db_error ''Failed to update seat availability'' db4) 500],
                         srv4)
                   else
                     ([Response (createSuccessResponse ''Ticket purchased successfully''
                         [(''total_amount'', to_string_double total_amount),
                          (''route'', route0),
                          (''vehicle_uri'', uri v),
                          (''available_seats'', to_string new_available),
                          (''passengers'', to_string passengers),
                          (''user_urn'', urn0)]),
                       sendMulticastUpdate ''ticket_purchased''
                         [(''route'', route0),
                          (''vehicle_uri'', uri v),
                          (''passengers'', to_string passengers),
                          (''available_seats'', to_string new_available)]],
                      srv4))"

text \<open>The part after the caller's identity is known: the request fields, the vehicle
  lookup and the seat check.\<close>

definition purchase_identified ::
    "string \<Rightarrow> Message \<Rightarrow> clock \<Rightarrow> CentralServer \<Rightarrow> exn + (sent list \<times> CentralServer)" where
  "purchase_identified urn0 message clk srv =
     (case getInt message ''ticket_type'' of
        Inl e \<Rightarrow> Inl e
      | Inr tt \<Rightarrow>
     (case getInt message ''vehicle_type'' of
        Inl e \<Rightarrow> Inl e
      | Inr vt \<Rightarrow>
     (case (if hasKey message ''passengers'' then getInt message ''passengers'' else Inr 1) of
        Inl e \<Rightarrow> Inl e
      | Inr pax \<Rightarrow>
          let ticket_type = (of_int tt :: TicketType);
              vehicle_type0 = (of_int vt :: VehicleType);
              route0 = (if hasKey message ''route'' then getString message ''route'' else []);
              uri0 = (if hasKey message ''uri'' then getString message ''uri'' else []);
              passengers = (if pax < 1 then 1 else pax);
              (by_uri, db1) = (if uri0 \<noteq> [] then getVehicle uri0 (db srv) else (None, db srv));
              vehicle_type1 = (case by_uri of Some v \<Rightarrow> vtype v | None \<Rightarrow> vehicle_type0);
              route1 = (case by_uri of Some v \<Rightarrow> route v | None \<Rightarrow> route0);
              (vehicle, db2) =
                (if by_uri = None \<and> route1 \<noteq> []
                 then getVehicleByRouteAndType route1 vehicle_type1 db1
                 else (by_uri, db1));
              srv2 = srv\<lparr>db := db2\<rparr>
          in (case vehicle of
                None \<Rightarrow> Inr ([sendErrorResponse ''Vehicle/route not found'' 404], srv2)
              | Some v \<Rightarrow>
                  let route2 = (if route1 = [] then route v else route1)
                  in if available_seats v < passengers
                     then Inr ([sendErrorResponse ''Insufficient seats available'' 409], srv2)
                     else Inr (purchase_resolved urn0 ticket_type vehicle_type1 route2
                                 passengers v clk srv2)))))"

definition handleTicketPurchase ::
    "Message \<Rightarrow> clock \<Rightarrow> CentralServer \<Rightarrow> exn + (sent list \<times> CentralServer)" where
  "handleTicketPurchase message clk srv =
     (if hasKey message ''session_id''
      then (case map_of (client_sessions srv) (getString message ''session_id'') of
              None \<Rightarrow> Inr ([sendErrorResponse ''Invalid or expired session'' 401], srv)
            | Some s \<Rightarrow>
                let srv1 = srv\<lparr>client_sessions :=
                      touch_session (getString message ''session_id'') (now_epoch clk)
                        (client_sessions srv)\<rparr>
                in if cs_user_urn s = []
                   then Inr ([sendErrorResponse
                                ''Missing user identity (session_id or urn)'' 400], srv1)
                   else purchase_identified (cs_user_urn s) message clk srv1)
      else
        let urn0 = (if hasKey message ''urn'' then getString message ''urn'' else [])
        in if urn0 = []
           then Inr ([sendErrorResponse ''Missing user identity (session_id or urn)'' 400], srv)
           else purchase_identified urn0 message clk srv)"

subsection \<open>Group member removal\<close>

definition requireGroupLeader ::
    "string \<Rightarrow> string \<Rightarrow> clock \<Rightarrow> CentralServer \<Rightarrow> bool \<times> sent list \<times> CentralServer" where
  "requireGroupLeader sid gname clk srv =
     (case map_of (client_sessions srv) sid of
        None \<Rightarrow> (False, [sendErrorResponse ''Invalid or expired session'' 401], srv)
      | Some s \<Rightarrow>
          let caller_urn = cs_user_urn s;
              srv1 = srv\<lparr>client_sessions :=
                       touch_session sid (now_epoch clk) (client_sessions srv)\<rparr>;
              (leader, db1) = getGroupLeader gname (db srv1);
              srv2 = srv1\<lparr>db := db1\<rparr>
          in if leader = []
             then (False, [sendErrorResponse ''Group not found or no leader set'' 404], srv2)
             else if leader \<noteq> caller_urn
             then (False, [sendErrorResponse ''Admin (group leader) privileges required'' 403],
                   srv2)
             else (True, [], srv2))"

definition handleRemoveMemberFromGroup ::
    "Message \<Rightarrow> clock \<Rightarrow> CentralServer \<Rightarrow> sent list \<times> CentralServer" where
  "handleRemoveMemberFromGroup message clk srv =
     (let sid = getString message ''session_id'';
          urn0 = getString message ''urn'';
          grp = getString message ''group_name''
      in if sid = [] \<or> grp = [] \<or> urn0 = []
         then ([sendErrorResponse
                  ''Missing required fields (session_id, group_name, urn)'' 400], srv)
         else
           (case requireGroupLeader sid grp clk srv of
              (False, outs, srv1) \<Rightarrow> (outs, srv1)
            | (True, outs, srv1) \<Rightarrow>
                let (ok, db2) = removeUserFromGroup urn0 grp (db srv1);
                    srv2 = srv1\<lparr>db := db2\<rparr>
                in if ok then (outs @ [sendSuccessResponse ''User removed from group''], srv2)
                   else (outs @ [sendErrorResponse ''Failed to remove user from group'' 500],
                         srv2)))"


section \<open>Well-formed messages and the inputs the statements use\<close>

text \<open>
  The state every message is in that was built by a constructor and the setters:
  the magic is in place, the map is ordered (a \<open>std::map\<close> always is), the header's
  length is the size of the encoded body (each \<open>add\<close> refreshes it; \<open>serialize\<close> does
  not), and the frame is short enough for the 32-bit length fields.
\<close>

definition well_formed :: "Message \<Rightarrow> bool" where
  "well_formed m =
     (magic (header m) = MAGIC \<and> ordered_map (data m)
      \<and> unat (length_field (header m)) = length (encodeData m)
      \<and> length (serialize m) < 2 ^ 32)"


text \<open>The message of the stream test: a connect request with three fields.\<close>

definition test_message :: Message where
  "test_message = addBool ''flag'' True (addInt ''num'' 42
       (addString ''client_id'' ''client_X'' (Message_of_type 1)))"

text \<open>A header announcing an empty body, followed by one more byte.\<close>

definition trailing_byte_frame :: "u8 list" where
  "trailing_byte_frame =
     [0x54, 0x50, 0x4D, 0x50,  0, 1,  0, 1,  0, 0, 0, 0,  0, 0, 0, 0,  0, 0, 0, 0,
      0, 0, 0, 0,  0xFF]"


text \<open>A frame whose body of 20 bytes holds the key \<open>a\<close> twice, with the values \<open>x\<close>
  and \<open>y\<close>.\<close>

definition dup_key_frame :: "u8 list" where
  "dup_key_frame =
     [0x54, 0x50, 0x4D, 0x50,  0, 1,  0, 1,  0, 0, 0, 20,  0, 0, 0, 0,  0, 0, 0, 0,
      0, 0, 0, 0,
      0, 0, 0, 1, 0x61, 0, 0, 0, 1, 0x78,
      0, 0, 0, 1, 0x61, 0, 0, 0, 1, 0x79]"



text \<open>A header alone whose first byte is not the magic's.\<close>

definition bad_magic_frame :: "u8 list" where
  "bad_magic_frame =
     [0x58, 0x50, 0x4D, 0x50,  0, 1,  0, 1,  0, 0, 0, 0,  0, 0, 0, 0,  0, 0, 0, 0,
      0, 0, 0, 0]"

text \<open>A header alone whose version field is 2.\<close>

definition version2_frame :: "u8 list" where
  "version2_frame =
     [0x54, 0x50, 0x4D, 0x50,  0, 2,  0, 1,  0, 0, 0, 0,  0, 0, 0, 0,  0, 0, 0, 0,
      0, 0, 0, 0]"

text \<open>A version-1 header announcing three body bytes, followed by exactly three
  bytes that hold no key/value pair.\<close>

definition bad_body_frame :: "u8 list" where
  "bad_body_frame =
     [0x54, 0x50, 0x4D, 0x50,  0, 1,  0, 1,  0, 0, 0, 3,  0, 0, 0, 0,  0, 0, 0, 0,
      0, 0, 0, 0,  0, 0, 0]"

text \<open>A message built by the constructor and one \<open>addString\<close> whose value is
  \<open>2 ^ 32 - 8\<close> bytes long: its encoded body has \<open>2 ^ 32\<close> bytes.\<close>

definition huge_message :: Message where
  "huge_message = addString [] (replicate (2 ^ 32 - 8) (CHR ''a'')) clear"

text \<open>A reserve-seat message whose field \<open>n\<close> is the text \<open>abc\<close>.\<close>

definition non_numeric_message :: Message where
  "non_numeric_message = addString ''n'' ''abc'' (Message_of_type 7)"


section \<open>Scenarios\<close>

text \<open>
  The states and requests the statements about the handlers are evaluated on: two
  registered users, a bus with three seats and a tram with fifty, a session of the
  first user (and, in \<open>srv_team\<close>, one of the second), and the group \<open>TEAM1\<close> led by
  the first user.
\<close>

definition alice :: User where
  "alice = \<lparr>urn = ''1000000000001'', name = ''Leader'', age = 30,
     registration_date = ''2025-01-01 10:00:00'', u_active = True, pin_hash = ''h''\<rparr>"

definition bob :: User where
  "bob = \<lparr>urn = ''1000000000002'', name = ''Member'', age = 28,
     registration_date = ''2025-01-01 10:02:00'', u_active = True, pin_hash = ''h''\<rparr>"

definition bus42 :: Vehicle where
  "bus42 = \<lparr>uri = ''bus://42'', vtype = BUS, capacity = 3, available_seats = 3,
     route = ''R_42'', v_active = True, last_update = ''2025-01-01 12:00:00''\<rparr>"

definition tram7 :: Vehicle where
  "tram7 = \<lparr>uri = ''tram://7'', vtype = TRAM, capacity = 50, available_seats = 50,
     route = ''R_7'', v_active = True, last_update = ''2025-01-01 12:00:00''\<rparr>"

definition db_fleet :: Database where
  "db_fleet = \<lparr>store = \<lparr>users = [alice, bob], groups = [], groups_seq = 0,
       group_members = [], vehicles = [bus42, tram7], tickets = [], payments = []\<rparr>,
     snapshot = None, last_error = [], last_error_code = 0, busy = [], journal = []\<rparr>"

definition alice_session :: ClientSession where
  "alice_session = \<lparr>cs_session_id = ''session_1'', cs_user_urn = ''1000000000001'',
     authenticated = True, last_activity = 0\<rparr>"

definition srv_fleet :: CentralServer where
  "srv_fleet = \<lparr>db = db_fleet, client_sessions = [(''session_1'', alice_session)],
     ticket_counter = 0, transaction_counter = 0\<rparr>"

definition clock0 :: clock where
  "clock0 = \<lparr>now_text = ''2025-01-01 12:00:00'', now_epoch = 1735732800\<rparr>"

definition reserve_bus42 :: Message where
  "reserve_bus42 = addString ''urn'' ''1000000000001'' (addString ''uri'' ''bus://42''
     (addInt ''vehicle_type'' 1 (Message_of_type RESERVE_SEAT)))"


definition tram_only :: Database where
  "tram_only = db_fleet\<lparr>store := (store db_fleet)\<lparr>vehicles := [tram7]\<rparr>\<rparr>"

definition full_bus :: Database where
  "full_bus = db_fleet\<lparr>store := (store db_fleet)\<lparr>vehicles :=
     [bus42\<lparr>available_seats := 0\<rparr>, tram7]\<rparr>\<rparr>"

definition payment_busy :: Database where
  "payment_busy = db_fleet\<lparr>busy := [False, False, False, True]\<rparr>"

definition purchase_two :: Message where
  "purchase_two = addInt ''passengers'' 2 (addString ''uri'' ''bus://42''
     (addInt ''vehicle_type'' 1 (addInt ''ticket_type'' 1
       (addString ''urn'' ''1000000000001'' (Message_of_type PURCHASE_TICKET)))))"

definition purchase_family :: Message where
  "purchase_family = addInt ''passengers'' 1 (addString ''uri'' ''tram://7''
     (addInt ''vehicle_type'' 2 (addInt ''ticket_type'' 2
       (addString ''urn'' ''1000000000001'' (Message_of_type PURCHASE_TICKET)))))"

definition purchase_route_bus :: Message where
  "purchase_route_bus = addInt ''passengers'' 1 (addString ''route'' ''R_7''
     (addInt ''vehicle_type'' 1 (addInt ''ticket_type'' 1
       (addString ''urn'' ''1000000000001'' (Message_of_type PURCHASE_TICKET)))))"

definition reserve_route_bus :: Message where
  "reserve_route_bus = addString ''urn'' ''1000000000001'' (addString ''route'' ''R_7''
     (addInt ''vehicle_type'' 1 (Message_of_type RESERVE_SEAT)))"

definition reserve_no_urn :: Message where
  "reserve_no_urn = addString ''route'' ''R_42''
     (addInt ''vehicle_type'' 1 (Message_of_type RESERVE_SEAT))"

definition reserve_unknown :: Message where
  "reserve_unknown = addString ''urn'' ''1000000000001'' (addString ''uri'' ''bus://99''
     (addInt ''vehicle_type'' 1 (Message_of_type RESERVE_SEAT)))"

definition team1 :: Group where
  "team1 = \<lparr>group_id = 0, group_name = ''TEAM1'', leader_urn = ''1000000000001'',
     creation_date = ''2025-01-01 11:00:00'', g_active = True\<rparr>"

definition db_team :: Database where
  "db_team = db_fleet\<lparr>store := (store db_fleet)\<lparr>
       groups := [\<lparr>group_id = 1, group_name = ''TEAM1'', leader_urn = ''1000000000001'',
                   creation_date = ''2025-01-01 11:00:00'', g_active = True\<rparr>],
       groups_seq := 1,
       group_members := [\<lparr>gm_group_id = 1, member_urn = ''1000000000001'',
                          join_date = ''2025-01-01 12:00:00'', gm_active = True\<rparr>]\<rparr>\<rparr>"

definition bob_session :: ClientSession where
  "bob_session = \<lparr>cs_session_id = ''session_2'', cs_user_urn = ''1000000000002'',
     authenticated = True, last_activity = 0\<rparr>"

definition srv_team :: CentralServer where
  "srv_team = \<lparr>db = db_team,
     client_sessions = [(''session_1'', alice_session), (''session_2'', bob_session)],
     ticket_counter = 0, transaction_counter = 0\<rparr>"

definition remove_by_bob :: Message where
  "remove_by_bob = addString ''urn'' ''1000000000001'' (addString ''group_name'' ''TEAM1''
     (addString ''session_id'' ''session_2'' (Message_of_type DELETE_GROUP_MEMBER)))"

definition remove_leader :: Message where
  "remove_leader = addString ''urn'' ''1000000000001'' (addString ''group_name'' ''TEAM1''
     (addString ''session_id'' ''session_1'' (Message_of_type DELETE_GROUP_MEMBER)))"

definition remove_from_missing_group :: Message where
  "remove_from_missing_group = addString ''urn'' ''1000000000002''
     (addString ''group_name'' ''NO_SUCH_GROUP''
       (addString ''session_id'' ''session_1'' (Message_of_type DELETE_GROUP_MEMBER)))"

definition remove_without_session :: Message where
  "remove_without_session = addString ''urn'' ''1000000000002''
     (addString ''group_name'' ''TEAM1'' (Message_of_type DELETE_GROUP_MEMBER))"

text \<open>The invariant of the data model: every group's leader is an active member of
  that group.\<close>

definition leader_is_member :: "tables \<Rightarrow> bool" where
  "leader_is_member t =
     list_all (\<lambda>g. list_ex (\<lambda>r. gm_group_id r = group_id g \<and> member_urn r = leader_urn g
                                 \<and> gm_active r) (group_members t)) (groups t)"

text \<open>The \<open>error_code\<close> a client reads from what was sent to it.\<close>

definition error_code_of :: "sent \<Rightarrow> exn + int" where
  "error_code_of s = (case s of Response m \<Rightarrow> getInt m ''error_code''
                               | Multicast m \<Rightarrow> getInt m ''error_code'')"




section \<open>Properties of the framed message\<close>

subsection \<open>Bytes, words and the ordered map\<close>

lemma rd32_be32 [simp]: "rd32 (be32 w) = w"
proof (rule bit_word_eqI)
  fix n :: nat
  assume "n < LENGTH(32)"
  then consider "n < 8" | "8 \<le> n" "n < 16" | "16 \<le> n" "n < 24" | "24 \<le> n" "n < 32"
    by fastforce
  then show "bit (rd32 (be32 w)) n = bit w n"
    by cases (auto simp add: rd32_def be32_def bit_simps)
qed

lemma rd16_be16 [simp]: "rd16 (be16 w) = w"
proof (rule bit_word_eqI)
  fix n :: nat
  assume "n < LENGTH(16)"
  then consider "n < 8" | "8 \<le> n" "n < 16"
    by fastforce
  then show "bit (rd16 (be16 w)) n = bit w n"
    by cases (auto simp add: rd16_def be16_def bit_simps)
qed

lemma length_be32 [simp]: "length (be32 w) = 4"
  by (simp add: be32_def)

lemma length_be16 [simp]: "length (be16 w) = 2"
  by (simp add: be16_def)

lemma char_of_byte_of_char [simp]: "char_of_byte (byte_of_char c) = c"
proof -
  have "(of_char c :: u8) = of_nat (of_char c)" by (simp only: of_nat_of_char)
  then have "unat (of_char c :: u8) = (of_char c :: nat) mod 256"
    by (simp add: unat_of_nat)
  then have "unat (of_char c :: u8) = (of_char c :: nat)" by simp
  then show ?thesis by (simp add: char_of_byte_def byte_of_char_def)
qed

lemma string_of_bytes_of [simp]: "string_of (bytes_of s) = s"
  by (induction s) (simp_all add: string_of_def bytes_of_def)

lemma length_bytes_of [simp]: "length (bytes_of s) = length s"
  by (simp add: bytes_of_def)

lemma length_header_bytes [simp]: "length (header_bytes h) = 24"
  by (simp add: header_bytes_def)

lemma parse_header_bytes [simp]: "parse_header (header_bytes h @ rest) = h"
  by (simp add: parse_header_def header_bytes_def)

text \<open>Assigning a key above every key of the map appends the pair.\<close>

lemma map_assign_append:
  "\<forall>k' \<in> set (map fst d). k' < k \<Longrightarrow> map_assign k v d = d @ [(k, v)]"
  by (induction d) (auto)

lemma foldl_map_assign_ordered:
  "ordered_map (d @ xs) \<Longrightarrow> foldl (\<lambda>d (k, v). map_assign k v d) d xs = d @ xs"
proof (induction xs arbitrary: d)
  case Nil
  then show ?case by simp
next
  case (Cons x xs)
  obtain k v where x: "x = (k, v)" by (cases x)
  from Cons.prems have "\<forall>k' \<in> set (map fst d). k' < k"
    by (auto simp: ordered_map_def x sorted_wrt_append)
  then have "map_assign k v d = d @ [(k, v)]" by (rule map_assign_append)
  moreover from Cons.prems have "ordered_map ((d @ [(k, v)]) @ xs)" by (simp add: x)
  ultimately show ?case using Cons.IH [of "d @ [(k, v)]"] by (simp add: x)
qed

lemma entry_length_le:
  "(k, v) \<in> set xs \<Longrightarrow> length k + length v + 8 \<le> length (encode_entries xs)"
  by (induction xs) auto

lemma decode_loop_encode:
  "length (encode_entries xs) < 2 ^ 32 \<Longrightarrow>
   decode_loop (pre @ encode_entries xs) (length pre) d =
     (length pre + length (encode_entries xs), foldl (\<lambda>d (k, v). map_assign k v d) d xs)"
proof (induction xs arbitrary: pre d)
  case Nil
  show ?case by (simp add: decode_loop.simps)
next
  case (Cons x xs)
  obtain k v where x: "x = (k, v)" by (cases x)
  let ?K = "be32 (of_nat (length k))" and ?V = "be32 (of_nat (length v))"
  let ?rest = "encode_entries xs"
  let ?bs = "pre @ encode_entries (x # xs)"
  from Cons.prems have lk: "length k < 2 ^ 32" and lv: "length v < 2 ^ 32"
    and lr: "length ?rest < 2 ^ 32"
    by (simp_all add: x)
  have uk: "unat (of_nat (length k) :: u32) = length k"
    using lk by (simp add: unat_of_nat)
  have uv: "unat (of_nat (length v) :: u32) = length v"
    using lv by (simp add: unat_of_nat)
  let ?pre' = "pre @ ?K @ bytes_of k @ ?V @ bytes_of v"
  have bs: "?bs = ?pre' @ ?rest" by (simp add: x)
  have step: "decode_loop ?bs (length pre) d =
      decode_loop ?bs (length ?pre') (map_assign k v d)"
    apply (subst decode_loop.simps)
    apply (simp add: x Let_def uk uv ac_simps)
    done
  have "decode_loop ?bs (length pre) d =
      decode_loop (?pre' @ ?rest) (length ?pre') (map_assign k v d)"
    using step by (simp only: bs)
  also have "\<dots> = (length ?pre' + length ?rest,
      foldl (\<lambda>d (k, v). map_assign k v d) (map_assign k v d) xs)"
    by (rule Cons.IH [OF lr])
  finally show ?case by (simp add: x)
qed

lemma decodeData_accepts_encoding:
  assumes "length (encode_entries xs) < 2 ^ 32"
  shows "fst (decodeData (encode_entries xs) m)"
  using decode_loop_encode [OF assms, of "[]" "[]"] by (simp add: decodeData_def)

lemma decodeData_encode:
  assumes "ordered_map xs" "length (encode_entries xs) < 2 ^ 32"
  shows "decodeData (encode_entries xs) m = (True, m\<lparr>data := xs\<rparr>)"
proof -
  have "decode_loop (encode_entries xs) 0 [] =
      (length (encode_entries xs), foldl (\<lambda>d (k, v). map_assign k v d) [] xs)"
    using decode_loop_encode [OF assms(2), of "[]" "[]"] by simp
  moreover have "foldl (\<lambda>d (k, v). map_assign k v d) [] xs = xs"
    using foldl_map_assign_ordered [of "[]" xs] assms(1) by simp
  ultimately show ?thesis by (simp add: decodeData_def)
qed


subsection \<open>Round trip\<close>

lemma deserialize_serialize:
  assumes "well_formed m"
  shows "deserialize (serialize m) m0 = (True, m)"
proof -
  from assms have mg: "magic (header m) = 0x54504D50"
    and om: "ordered_map (data m)"
    and len: "unat (length_field (header m)) = length (encode_entries (data m))"
    and sz: "length (encode_entries (data m)) < 2 ^ 32"
    by (simp_all add: well_formed_def MAGIC_def encodeData_def serialize_def)
  have "decodeData (encode_entries (data m)) (m0\<lparr>header := header m\<rparr>) =
      (True, m0\<lparr>header := header m, data := data m\<rparr>)"
    by (rule decodeData_encode [OF om sz])
  then show ?thesis
    by (simp add: deserialize_def serialize_def sizeof_Header_def encodeData_def mg len)
qed

lemma deserializeStream_serializeStream:
  assumes "well_formed m"
  shows "deserializeStream (serializeStream m) m0 = (True, m)"
proof -
  from assms have "length (serialize m) < 2 ^ 32" by (simp add: well_formed_def)
  then have "unat (of_nat (length (serialize m)) :: u32) = length (serialize m)"
    by (simp add: unat_of_nat)
  then show ?thesis
    using deserialize_serialize [OF assms, of m0]
    by (simp add: deserializeStream_def serializeStream_def)
qed

lemma zero_checksum_calculateChecksum:
  "zero_checksum (calculateChecksum m) = zero_checksum m"
  by (simp add: zero_checksum_def calculateChecksum_def)

lemma verifyChecksum_calculateChecksum: "verifyChecksum (calculateChecksum m)"
  by (simp add: verifyChecksum_def zero_checksum_calculateChecksum)
     (simp add: calculateChecksum_def)

lemma length_serialize: "length (serialize m) = 24 + length (encode_entries (data m))"
  by (simp add: serialize_def encodeData_def)

lemma well_formed_calculateChecksum:
  "well_formed m \<Longrightarrow> well_formed (calculateChecksum m)"
  by (simp add: well_formed_def calculateChecksum_def length_serialize encodeData_def)

lemma well_formed_clear: "well_formed clear"
  by (simp add: well_formed_def clear_def ordered_map_def encodeData_def length_serialize)

lemma map_assign_keys: "set (map fst (map_assign k v xs)) = insert k (set (map fst xs))"
proof (induction xs)
  case Nil
  show ?case by simp
next
  case (Cons x xs)
  obtain k' v' where x: "x = (k', v')" by (cases x)
  from Cons.IH have "fst ` set (map_assign k v xs) = insert k (fst ` set xs)" by simp
  then show ?case by (simp add: x insert_commute)
qed

lemma ordered_map_assign: "ordered_map xs \<Longrightarrow> ordered_map (map_assign k v xs)"
proof (induction xs)
  case Nil
  then show ?case by (simp add: ordered_map_def)
next
  case (Cons x xs)
  obtain k' v' where x: "x = (k', v')" by (cases x)
  from Cons.prems have tl: "ordered_map xs" and hd: "\<forall>y \<in> set (map fst xs). k' < y"
    by (simp_all add: ordered_map_def x)
  show ?case
  proof (cases "k < k'")
    case True
    with Cons.prems show ?thesis by (auto simp: ordered_map_def x)
  next
    case False
    show ?thesis
    proof (cases "k = k'")
      case True
      with Cons.prems show ?thesis by (auto simp: ordered_map_def x)
    next
      case ne: False
      with False have "k' < k" by simp
      moreover have "ordered_map (map_assign k v xs)" by (rule Cons.IH [OF tl])
      moreover have "\<forall>y \<in> set (map fst (map_assign k v xs)). k' < y"
        using hd \<open>k' < k\<close> by (simp only: map_assign_keys) simp
      ultimately show ?thesis
        using False ne by (simp add: ordered_map_def x)
    qed
  qed
qed

lemma well_formed_Message_of_type: "well_formed (Message_of_type t)"
  by (simp add: well_formed_def Message_of_type_def clear_def ordered_map_def encodeData_def
      length_serialize)

lemma well_formed_addString:
  assumes "well_formed m"
    and "24 + length (encode_entries (map_assign key val (data m))) < 2 ^ 32"
  shows "well_formed (addString key val m)"
proof -
  let ?d = "map_assign key val (data m)"
  from assms(2) have "length (encode_entries ?d) < 2 ^ 32" by simp
  then have "unat (of_nat (length (encode_entries ?d)) :: u32) = length (encode_entries ?d)"
    by (simp add: unat_of_nat)
  moreover from assms(1) have "ordered_map ?d"
    by (simp add: well_formed_def ordered_map_assign)
  ultimately show ?thesis
    using assms
    by (simp add: well_formed_def addString_def refresh_length_def encodeData_def
        length_serialize)
qed


text \<open>
  C3 (corrected). Let \<open>m\<close> be a message whose magic field is \<open>0x54504D50\<close>, whose
  header length field is the size of its encoded body and whose frame is shorter
  than \<open>2 ^ 32\<close> bytes (\<open>well_formed\<close>, which also records that \<open>data_\<close> is an ordered
  map; every message built by a constructor and the setters within that size is in
  this state). Then \<open>m\<close> survives both encodings unchanged:
  \<open>deserialize (serialize m)\<close> and \<open>deserializeStream (serializeStream m)\<close> succeed and
  rebuild \<open>m\<close>, header and payload, whatever the receiving object held before; after
  \<open>calculateChecksum\<close>, \<open>verifyChecksum\<close> holds for the message and for what either
  decoder rebuilds from its encoding.
\<close>

theorem serialize_roundtrip:
  assumes "well_formed m"
  shows "deserialize (serialize m) m0 = (True, m)
     \<and> deserializeStream (serializeStream m) m0 = (True, m)
     \<and> verifyChecksum (calculateChecksum m)
     \<and> verifyChecksum (snd (deserialize (serialize (calculateChecksum m)) m0))
     \<and> verifyChecksum (snd (deserializeStream (serializeStream (calculateChecksum m)) m0))"
proof -
  have wc: "well_formed (calculateChecksum m)"
    using assms by (rule well_formed_calculateChecksum)
  have vc: "verifyChecksum (calculateChecksum m)"
    by (rule verifyChecksum_calculateChecksum)
  show ?thesis
    using deserialize_serialize [OF assms, of m0]
      deserializeStream_serializeStream [OF assms, of m0]
      deserialize_serialize [OF wc, of m0]
      deserializeStream_serializeStream [OF wc, of m0] vc
    by simp
qed

theorem serialize_roundtrip_witness:
  "well_formed test_message
   \<and> deserialize (serialize test_message) clear = (True, test_message)
   \<and> deserializeStream (serializeStream test_message) clear = (True, test_message)
   \<and> verifyChecksum (calculateChecksum test_message)"
proof -
  have "magic (header test_message) = MAGIC" by code_simp
  moreover have "ordered_map (data test_message)" by code_simp
  moreover have "unat (length_field (header test_message)) = length (encodeData test_message)"
    by code_simp
  moreover have "length (serialize test_message) = 78" by code_simp
  ultimately have wf: "well_formed test_message" by (simp add: well_formed_def)
  from serialize_roundtrip [OF wf, of clear] wf show ?thesis by blast
qed

text \<open>
  The claim as stated, for every message, fails in each of the three ways the
  conditions above exclude.
  \<^item> \<open>deserialize\<close> accepts the frame \<open>dup_key_frame\<close> and yields a message with one
    pair whose header still announces the 20 bytes received; its serialization is
    ten bytes shorter than its header says, and \<open>deserialize\<close> refuses it.
  \<^item> \<open>deserialize\<close> refuses \<open>bad_magic_frame\<close>, but has overwritten the header of the
    receiving object before it compares the magic; the object's own serialization
    is refused again.
  \<^item> The body of \<open>huge_message\<close>, built by the setters alone, has \<open>2 ^ 32\<close> bytes, so its
    length field wraps to 0; \<open>deserialize\<close> accepts its serialization and rebuilds a
    message with no pair at all.
\<close>

theorem serialize_roundtrip_counterexample:
  "deserialize dup_key_frame clear =
     (True, \<lparr>header = \<lparr>magic = 0x54504D50, version = 1, msg_type = 1, length_field = 20,
        sequence_id = 0, session_id = 0, checksum = 0\<rparr>, data = [(''a'', ''y'')]\<rparr>)
   \<and> fst (deserialize (serialize (snd (deserialize dup_key_frame clear))) clear) = False
   \<and> fst (deserialize bad_magic_frame clear) = False
   \<and> fst (deserialize (serialize (snd (deserialize bad_magic_frame clear))) clear) = False
   \<and> data huge_message = [([], replicate (2 ^ 32 - 8) (CHR ''a''))]
   \<and> deserialize (serialize huge_message) clear = (True, huge_message\<lparr>data := []\<rparr>)"
proof -
  have "deserialize dup_key_frame clear =
     (True, \<lparr>header = \<lparr>magic = 0x54504D50, version = 1, msg_type = 1, length_field = 20,
        sequence_id = 0, session_id = 0, checksum = 0\<rparr>, data = [(''a'', ''y'')]\<rparr>)"
    by code_simp
  moreover have
    "fst (deserialize (serialize (snd (deserialize dup_key_frame clear))) clear) = False"
    by code_simp
  moreover have "fst (deserialize bad_magic_frame clear) = False" by code_simp
  moreover have
    "fst (deserialize (serialize (snd (deserialize bad_magic_frame clear))) clear) = False"
    by code_simp
  moreover have d: "data huge_message = [([], replicate (2 ^ 32 - 8) (CHR ''a''))]"
    by (simp add: huge_message_def addString_def refresh_length_def clear_def)
  moreover have "deserialize (serialize huge_message) clear = (True, huge_message\<lparr>data := []\<rparr>)"
  proof -
    have h: "header huge_message = header clear"
      by (simp add: huge_message_def addString_def refresh_length_def clear_def
          encodeData_def bytes_of_def)
    have "decodeData [] (clear\<lparr>header := header clear\<rparr>) = (True, clear\<lparr>data := []\<rparr>)"
      by (simp add: decodeData_def decode_loop.simps clear_def)
    moreover have "huge_message\<lparr>data := []\<rparr> = clear\<lparr>data := []\<rparr>"
      using h by (simp add: clear_def)
    ultimately show ?thesis
      using h
      by (simp add: deserialize_def serialize_def sizeof_Header_def clear_def MAGIC_def)
  qed
  ultimately show ?thesis by blast
qed

subsection \<open>What deserialize accepts\<close>

lemma fst_decodeData: "fst (decodeData bs m) = fst (decodeData bs m')"
  by (simp add: decodeData_def split: prod.splits)

lemma deserialize_append:
  assumes "fst (deserialize bs m)"
  shows "deserialize (bs @ extra) m = deserialize bs m"
proof -
  from assms have l: "sizeof_Header \<le> length bs"
    by (auto simp: deserialize_def split: if_splits)
  then have ph: "parse_header (bs @ extra) = parse_header bs"
    by (simp add: parse_header_def sizeof_Header_def)
  from assms l have b: "sizeof_Header + unat (length_field (parse_header bs)) \<le> length bs"
    by (auto simp: deserialize_def Let_def split: if_splits)
  then have "take (unat (length_field (parse_header bs))) (drop sizeof_Header (bs @ extra)) =
      take (unat (length_field (parse_header bs))) (drop sizeof_Header bs)"
    using l by simp
  then show ?thesis
    using l b by (simp add: deserialize_def Let_def ph)
qed

text \<open>The version field lies in bytes 4 and 5; \<open>deserialize\<close> never reads it for its
  decision.\<close>

lemma fst_deserialize:
  "fst (deserialize bs m) \<longleftrightarrow>
        sizeof_Header \<le> length bs
      \<and> magic (parse_header bs) = 0x54504D50
      \<and> unat (length_field (parse_header bs)) \<le> length bs - sizeof_Header
      \<and> fst (decodeData (take (unat (length_field (parse_header bs)))
              (drop sizeof_Header bs)) m)"
  using fst_decodeData [of "take (unat (length_field (parse_header bs))) (drop sizeof_Header bs)"
      "m\<lparr>header := parse_header bs\<rparr>" m]
  by (auto simp: deserialize_def Let_def)

lemma deserialize_version_unread:
  assumes "6 \<le> length bs"
  shows "fst (deserialize (take 4 bs @ [v1, v2] @ drop 6 bs) m) = fst (deserialize bs m)"
proof -
  define bs' where "bs' = take 4 bs @ [v1, v2] @ drop 6 bs"
  from assms have len: "length bs' = length bs" by (simp add: bs'_def)
  from assms have t4: "take 4 bs' = take 4 bs" by (simp add: bs'_def)
  from assms have d6: "drop 6 bs' = drop 6 bs" by (simp add: bs'_def)
  have dn: "drop (n + 6) bs' = drop (n + 6) bs" for n
    using d6 by (metis drop_drop)
  have d8: "drop 8 bs' = drop 8 bs" using dn [of 2] by simp
  have d24: "drop 24 bs' = drop 24 bs" using dn [of 18] by simp
  have mg: "magic (parse_header bs') = magic (parse_header bs)"
    by (simp add: parse_header_def t4)
  have lf: "length_field (parse_header bs') = length_field (parse_header bs)"
    by (simp add: parse_header_def d8)
  have dr: "drop sizeof_Header bs' = drop sizeof_Header bs"
    by (simp add: sizeof_Header_def d24)
  have "fst (deserialize bs' m) = fst (deserialize bs m)"
    by (simp only: fst_deserialize len mg lf dr)
  then show ?thesis by (simp only: bs'_def)
qed

text \<open>
  C4 (corrected). \<open>deserialize\<close> succeeds exactly when the buffer has the 24 header
  bytes, the magic is \<open>0x54504D50\<close>, the advertised body length does not exceed the
  bytes after the header, and \<open>decodeData\<close> accepts the advertised body bytes. The
  version field is not compared: overwriting it leaves the decision unchanged.
  Bytes beyond header and body are ignored: appending bytes to an accepted buffer
  changes neither the decision nor the decoded message.
\<close>

theorem deserialize_accepts_iff:
  "(fst (deserialize bs m) \<longleftrightarrow>
        sizeof_Header \<le> length bs
      \<and> magic (parse_header bs) = 0x54504D50
      \<and> unat (length_field (parse_header bs)) \<le> length bs - sizeof_Header
      \<and> fst (decodeData (take (unat (length_field (parse_header bs)))
              (drop sizeof_Header bs)) m))
   \<and> (6 \<le> length bs \<longrightarrow>
        fst (deserialize (take 4 bs @ [v1, v2] @ drop 6 bs) m) = fst (deserialize bs m))
   \<and> (fst (deserialize bs m) \<longrightarrow> deserialize (bs @ extra) m = deserialize bs m)"
  using fst_deserialize [of bs m] deserialize_append [of bs m extra]
    deserialize_version_unread [of bs v1 v2 m]
  by blast

theorem deserialize_accepts_iff_witness:
  "6 \<le> length (serialize test_message)
   \<and> fst (deserialize (serialize test_message) clear)
   \<and> fst (deserialize (take 4 (serialize test_message) @ [0, 2]
            @ drop 6 (serialize test_message)) clear)
   \<and> deserialize (serialize test_message @ [0xFF, 0xFF]) clear
       = deserialize (serialize test_message) clear"
proof -
  have l: "6 \<le> length (serialize test_message)" by code_simp
  have a: "fst (deserialize (serialize test_message) clear)" by code_simp
  show ?thesis
    using deserialize_accepts_iff [of "serialize test_message" clear 0 2 "[0xFF, 0xFF]"] l a
    by simp
qed

text \<open>
  The claim as stated fails in three ways. A buffer one byte longer than header
  plus advertised body is accepted, and so is a header whose version field is 2;
  and a buffer that meets every condition the claim lists (24 header bytes, magic
  and version as expected, three body bytes advertised and three present) is
  refused, because \<open>decodeData\<close> does not accept those three bytes.
\<close>

theorem deserialize_trailing_bytes_counterexample:
  "length trailing_byte_frame
     = sizeof_Header + unat (length_field (parse_header trailing_byte_frame)) + 1
   \<and> fst (deserialize trailing_byte_frame clear) = True
   \<and> version (parse_header version2_frame) = 2
   \<and> fst (deserialize version2_frame clear) = True
   \<and> length bad_body_frame = sizeof_Header + 3
   \<and> magic (parse_header bad_body_frame) = 0x54504D50
   \<and> version (parse_header bad_body_frame) = 1
   \<and> unat (length_field (parse_header bad_body_frame)) = 3
   \<and> fst (deserialize bad_body_frame clear) = False"
  by code_simp

subsection \<open>Typed accessors\<close>

text \<open>
  C10 (confirmed). A missing key yields the zero value from \<open>getInt\<close>, \<open>getDouble\<close> and
  \<open>getBinary\<close>; but for a message that \<open>deserialize\<close> accepts from the wire and whose
  field \<open>n\<close> is present with the text \<open>abc\<close>, all three throw
  \<open>std::invalid_argument\<close> instead of returning a value.
\<close>

theorem typed_accessors_not_total:
  "(map_find (data m) key = None \<longrightarrow>
      getInt m key = Inr 0 \<and> getDouble strtod_value dzero m key = Inr dzero
      \<and> getBinary m key = Inr [])
   \<and> deserialize (serialize non_numeric_message) clear = (True, non_numeric_message)
   \<and> hasKey non_numeric_message ''n''
   \<and> getInt non_numeric_message ''n'' = Inl invalid_argument
   \<and> getDouble strtod_value dzero non_numeric_message ''n'' = Inl invalid_argument
   \<and> getBinary non_numeric_message ''n'' = Inl invalid_argument"
proof -
  have d: "data non_numeric_message = [(''n'', ''abc'')]" by code_simp
  have "deserialize (serialize non_numeric_message) clear = (True, non_numeric_message)"
    by code_simp
  moreover have "hasKey non_numeric_message ''n''" by code_simp
  moreover have "getInt non_numeric_message ''n'' = Inl invalid_argument" by code_simp
  moreover have "getBinary non_numeric_message ''n'' = Inl invalid_argument" by code_simp
  moreover have "strtod_converts ''abc'' = False" by code_simp
  then have "getDouble strtod_value dzero non_numeric_message ''n'' = Inl invalid_argument"
    by (simp add: getDouble_def stod_def d map_find_def)
  ultimately show ?thesis
    by (simp add: getInt_def getDouble_def getBinary_def)
qed

theorem typed_accessors_not_total_witness:
  "map_find (data clear) ''n'' = None
   \<and> getInt clear ''n'' = Inr 0
   \<and> getDouble (\<lambda>s. None) (0 :: int) clear ''n'' = Inr 0
   \<and> getBinary clear ''n'' = Inr []"
proof -
  have h: "map_find (data clear) ''n'' = None" by code_simp
  show ?thesis
    using typed_accessors_not_total [of clear "''n''" "\<lambda>s. None" "0 :: int"] h by simp
qed

section \<open>Properties of the handlers\<close>

subsection \<open>Evaluating the scenarios\<close>

lemma data_calculateChecksum [simp]: "data (calculateChecksum m) = data m"
  by (simp add: calculateChecksum_def)

lemmas database_defs = run_statement_def setLastError_def clearLastError_def c_str_def
  beginTransaction_def commitTransaction_def rollbackTransaction_def
  getGroupIdByName_def userExists_def getGroupLeader_def member_keys_resolve_def
  same_member_def createGroup_def addUserToGroup_def removeUserFromGroup_def
  extractVehicle_def getVehicle_def getVehicleByRouteAndType_def updateSeatAvailability_def
  ticket_row_def payment_row_def createTicket_def recordPayment_def calculateTicketPrice_def
  SQLITE_ERROR_def SQLITE_BUSY_def SQLITE_NOTFOUND_def SQLITE_CONSTRAINT_def SQLITE_DONE_def

lemmas accessor_defs = getInt_def hasKey_def getString_def map_find_def

lemmas scenario_defs = alice_def bob_def bus42_def tram7_def db_fleet_def alice_session_def
  bob_session_def srv_fleet_def srv_team_def db_team_def clock0_def tram_only_def full_bus_def
  payment_busy_def team1_def BUS_def TRAM_def TROLLEYBUS_def INDIVIDUAL_def GROUP_FAMILY_def

lemma stoi_1: "stoi ''1'' = Inr 1" by code_simp
lemma stoi_2: "stoi ''2'' = Inr 2" by code_simp
lemma stoi_m1: "stoi ''-1'' = Inr (- 1)" by code_simp
lemma stoi_404: "stoi ''404'' = Inr 404" by code_simp
lemma to_string_m1: "to_string (- 1) = ''-1''" by code_simp
lemma to_string_1: "to_string 1 = ''1''" by code_simp
lemma to_string_2: "to_string 2 = ''2''" by code_simp
lemma to_string_49: "to_string 49 = ''49''" by code_simp
lemma to_string_404: "to_string 404 = ''404''" by code_simp
lemma to_string_epoch: "to_string 1735732800 = ''1735732800''"
  by (simp add: to_string_def to_string_nat.simps) code_simp
lemma to_string_nat_0: "to_string_nat 0 = ''0''" by code_simp
lemma to_string_nat_1: "to_string_nat 1 = ''1''" by code_simp
lemma to_string_nat_Suc_0: "to_string_nat (Suc 0) = ''1''"
  using to_string_nat_1 by simp
lemma to_string_double_1: "to_string_double 1 = ''1.000000''"
  by (simp add: to_string_double_def Let_def to_string_nat_0 to_string_nat_Suc_0) code_simp

lemmas text_evals = stoi_1 stoi_2 stoi_m1 stoi_404 to_string_m1 to_string_1 to_string_2
  to_string_49 to_string_404 to_string_epoch to_string_double_1

lemma data_reserve_bus42: "data reserve_bus42 =
    [(''uri'', ''bus://42''), (''urn'', ''1000000000001''), (''vehicle_type'', ''1'')]"
  by code_simp

lemma data_reserve_route_bus: "data reserve_route_bus =
    [(''route'', ''R_7''), (''urn'', ''1000000000001''), (''vehicle_type'', ''1'')]"
  by code_simp

lemma data_reserve_no_urn:
  "data reserve_no_urn = [(''route'', ''R_42''), (''vehicle_type'', ''1'')]"
  by code_simp

lemma data_reserve_unknown: "data reserve_unknown =
    [(''uri'', ''bus://99''), (''urn'', ''1000000000001''), (''vehicle_type'', ''1'')]"
  by code_simp

lemma data_purchase_two: "data purchase_two =
    [(''passengers'', ''2''), (''ticket_type'', ''1''), (''uri'', ''bus://42''),
     (''urn'', ''1000000000001''), (''vehicle_type'', ''1'')]"
  by code_simp

lemma data_purchase_family: "data purchase_family =
    [(''passengers'', ''1''), (''ticket_type'', ''2''), (''uri'', ''tram://7''),
     (''urn'', ''1000000000001''), (''vehicle_type'', ''2'')]"
  by code_simp

lemma data_purchase_route_bus: "data purchase_route_bus =
    [(''passengers'', ''1''), (''route'', ''R_7''), (''ticket_type'', ''1''),
     (''urn'', ''1000000000001''), (''vehicle_type'', ''1'')]"
  by code_simp

lemma data_remove_leader: "data remove_leader =
    [(''group_name'', ''TEAM1''), (''session_id'', ''session_1''), (''urn'', ''1000000000001'')]"
  by code_simp

lemma data_remove_by_bob: "data remove_by_bob =
    [(''group_name'', ''TEAM1''), (''session_id'', ''session_2''), (''urn'', ''1000000000001'')]"
  by code_simp

lemma data_remove_from_missing_group: "data remove_from_missing_group =
    [(''group_name'', ''NO_SUCH_GROUP''), (''session_id'', ''session_1''),
     (''urn'', ''1000000000002'')]"
  by code_simp

lemma data_remove_without_session: "data remove_without_session =
    [(''group_name'', ''TEAM1''), (''urn'', ''1000000000002'')]"
  by code_simp

lemmas request_data = data_reserve_bus42 data_reserve_route_bus data_reserve_no_urn
  data_reserve_unknown data_purchase_two data_purchase_family data_purchase_route_bus
  data_remove_leader data_remove_by_bob data_remove_from_missing_group
  data_remove_without_session

lemma data_createErrorResponse:
  "data (createErrorResponse e c) = [(''error'', e), (''error_code'', to_string c)]"
  by (simp add: createErrorResponse_def addInt_def addString_def refresh_length_def
      Message_of_type_def clear_def)

lemma error_code_of_sendErrorResponse:
  "error_code_of (sendErrorResponse e c) = stoi (to_string c)"
  by (simp add: error_code_of_def sendErrorResponse_def data_createErrorResponse accessor_defs)

subsection \<open>ReserveSeat and transactions\<close>

text \<open>
  C1 (the code departs from the claim). On \<open>db_fleet\<close>, a ReserveSeat request for
  \<open>bus://42\<close> succeeds and leaves two statements in the connection's journal, the
  \<open>SELECT\<close> and the \<open>UPDATE\<close>, with no \<open>BEGIN\<close> or \<open>COMMIT\<close> around them; on \<open>full_bus\<close>,
  where the bus has no seat left, the request is refused after the \<open>SELECT\<close> alone,
  with no \<open>BEGIN\<close> or \<open>ROLLBACK\<close>. \<open>try_reserve_one\<close> of the repository's concurrent
  reservation test runs the same read, check and update between
  \<open>BEGIN TRANSACTION\<close> and \<open>COMMIT\<close>, and ends the refused attempt with \<open>ROLLBACK\<close>.
\<close>

theorem reserve_seat_runs_outside_transaction:
  "handleSeatReservation reserve_bus42 srv_fleet =
     Inr ([Response (createSuccessResponse ''Seat reserved successfully''
             [(''route'', ''R_42''), (''vehicle_uri'', ''bus://42''), (''available_seats'', ''2'')]),
           sendMulticastUpdate ''seat_reserved''
             [(''route'', ''R_42''), (''vehicle_uri'', ''bus://42''), (''available_seats'', ''2'')]],
          srv_fleet\<lparr>db := db_fleet\<lparr>
            store := (store db_fleet)\<lparr>vehicles := [bus42\<lparr>available_seats := 2\<rparr>, tram7]\<rparr>,
            journal := [SELECT_FROM ''vehicles'', UPDATE ''vehicles'']\<rparr>\<rparr>)
   \<and> handleSeatReservation reserve_bus42 (srv_fleet\<lparr>db := full_bus\<rparr>) =
     Inr ([sendErrorResponse_default ''No available seats for this route/vehicle''],
          srv_fleet\<lparr>db := full_bus\<lparr>journal := [SELECT_FROM ''vehicles'']\<rparr>\<rparr>)
   \<and> try_reserve_one ''bus://42'' db_fleet =
     (True, db_fleet\<lparr>
        store := (store db_fleet)\<lparr>vehicles := [bus42\<lparr>available_seats := 2\<rparr>, tram7]\<rparr>,
        journal := [BEGIN_TRANSACTION, SELECT_FROM ''vehicles'', UPDATE ''vehicles'', COMMIT]\<rparr>)
   \<and> try_reserve_one ''bus://42'' full_bus =
     (False, full_bus\<lparr>
        journal := [BEGIN_TRANSACTION, SELECT_FROM ''vehicles'', ROLLBACK]\<rparr>)"
  by (simp add: handleSeatReservation_def try_reserve_one_def accessor_defs request_data
      text_evals scenario_defs database_defs Let_def)

subsection \<open>PurchaseTicket\<close>

text \<open>
  C2 (the code departs from the claim). A purchase of two seats on \<open>bus://42\<close> whose
  payment \<open>INSERT\<close> meets a busy engine (\<open>payment_busy\<close>: the fourth statement of the
  request) answers with error 500, and the two ticket rows it had inserted stay in
  the table: nothing is rolled back.
\<close>

theorem purchase_failure_keeps_tickets:
  "handleTicketPurchase purchase_two clock0 (srv_fleet\<lparr>db := payment_busy\<rparr>) =
     Inr ([sendErrorResponse ''Failed to record payment: Failed to insert payment'' 500],
          srv_fleet\<lparr>db := db_fleet\<lparr>
            store := (store db_fleet)\<lparr>tickets :=
              [\<lparr>ticket_id = ''TKT_1_1735732800'', user_urn = ''1000000000001'',
                 ttype = INDIVIDUAL, t_vehicle_type = BUS, t_route = ''R_42'', price = 1,
                 discount = 0, purchase_date = ''2025-01-01 12:00:00'', seat_number = ''1'',
                 used = False\<rparr>,
               \<lparr>ticket_id = ''TKT_2_1735732800'', user_urn = ''1000000000001'',
                 ttype = INDIVIDUAL, t_vehicle_type = BUS, t_route = ''R_42'', price = 1,
                 discount = 0, purchase_date = ''2025-01-01 12:00:00'', seat_number = ''2'',
                 used = False\<rparr>]\<rparr>,
            last_error := ''Failed to insert payment'', last_error_code := 5,
            journal := [SELECT_FROM ''vehicles'', INSERT_INTO ''tickets'', INSERT_INTO ''tickets'',
                        INSERT_INTO ''payments'']\<rparr>,
            ticket_counter := 2, transaction_counter := 1\<rparr>)
   \<and> tickets (store payment_busy) = []"
  by (simp add: handleTicketPurchase_def purchase_identified_def purchase_resolved_def
      generateTicketId_def generateTransactionId_def with_db_error_def
      accessor_defs request_data text_evals scenario_defs database_defs Let_def
      numeral_2_eq_2)

text \<open>
  C5 (the code departs from the claim). A Family purchase of one seat on \<open>tram://7\<close>
  succeeds; the ticket row has price 1 and discount 0, the payment row has amount 1
  and the response says \<open>total_amount = 1.000000\<close>, although \<open>calculateDiscount\<close>
  gives the Family kind its ten per cent, with which the total would be below 1.
\<close>

theorem family_purchase_charged_in_full:
  "handleTicketPurchase purchase_family clock0 srv_fleet =
     Inr ([Response (createSuccessResponse ''Ticket purchased successfully''
             [(''total_amount'', ''1.000000''), (''route'', ''R_7''),
              (''vehicle_uri'', ''tram://7''), (''available_seats'', ''49''),
              (''passengers'', ''1''), (''user_urn'', ''1000000000001'')]),
           sendMulticastUpdate ''ticket_purchased''
             [(''route'', ''R_7''), (''vehicle_uri'', ''tram://7''), (''passengers'', ''1''),
              (''available_seats'', ''49'')]],
          srv_fleet\<lparr>db := db_fleet\<lparr>
            store := (store db_fleet)\<lparr>
              vehicles := [bus42, tram7\<lparr>available_seats := 49\<rparr>],
              tickets :=
                [\<lparr>ticket_id = ''TKT_1_1735732800'', user_urn = ''1000000000001'',
                   ttype = GROUP_FAMILY, t_vehicle_type = TRAM, t_route = ''R_7'', price = 1,
                   discount = 0, purchase_date = ''2025-01-01 12:00:00'', seat_number = ''1'',
                   used = False\<rparr>],
              payments :=
                [\<lparr>transaction_id = ''TX_1_1735732800'', p_ticket_id = ''TKT_1_1735732800'',
                   amount = 1, payment_method = ''card'',
                   payment_date = ''2025-01-01 12:00:00'', successful = True\<rparr>]\<rparr>,
            journal := [SELECT_FROM ''vehicles'', INSERT_INTO ''tickets'',
                        INSERT_INTO ''payments'', UPDATE ''vehicles'']\<rparr>,
            ticket_counter := 1, transaction_counter := 1\<rparr>)
   \<and> calculateDiscount ''1000000000001'' GROUP_FAMILY 1 = double_0_10
   \<and> calculateTicketPrice TRAM GROUP_FAMILY 1 1 30 * 1
        * (1 - calculateDiscount ''1000000000001'' GROUP_FAMILY 1) < 1"
proof -
  have "calculateDiscount ''1000000000001'' GROUP_FAMILY 1 = double_0_10"
    by (simp add: calculateDiscount_def)
  moreover have "calculateTicketPrice TRAM GROUP_FAMILY 1 1 30 * 1
        * (1 - calculateDiscount ''1000000000001'' GROUP_FAMILY 1) < 1"
    by (simp add: calculateDiscount_def calculateTicketPrice_def double_0_10_def)
  moreover have "handleTicketPurchase purchase_family clock0 srv_fleet =
     Inr ([Response (createSuccessResponse ''Ticket purchased successfully''
             [(''total_amount'', ''1.000000''), (''route'', ''R_7''),
              (''vehicle_uri'', ''tram://7''), (''available_seats'', ''49''),
              (''passengers'', ''1''), (''user_urn'', ''1000000000001'')]),
           sendMulticastUpdate ''ticket_purchased''
             [(''route'', ''R_7''), (''vehicle_uri'', ''tram://7''), (''passengers'', ''1''),
              (''available_seats'', ''49'')]],
          srv_fleet\<lparr>db := db_fleet\<lparr>
            store := (store db_fleet)\<lparr>
              vehicles := [bus42, tram7\<lparr>available_seats := 49\<rparr>],
              tickets :=
                [\<lparr>ticket_id = ''TKT_1_1735732800'', user_urn = ''1000000000001'',
                   ttype = GROUP_FAMILY, t_vehicle_type = TRAM, t_route = ''R_7'', price = 1,
                   discount = 0, purchase_date = ''2025-01-01 12:00:00'', seat_number = ''1'',
                   used = False\<rparr>],
              payments :=
                [\<lparr>transaction_id = ''TX_1_1735732800'', p_ticket_id = ''TKT_1_1735732800'',
                   amount = 1, payment_method = ''card'',
                   payment_date = ''2025-01-01 12:00:00'', successful = True\<rparr>]\<rparr>,
            journal := [SELECT_FROM ''vehicles'', INSERT_INTO ''tickets'',
                        INSERT_INTO ''payments'', UPDATE ''vehicles'']\<rparr>,
            ticket_counter := 1, transaction_counter := 1\<rparr>)"
    by (simp add: handleTicketPurchase_def purchase_identified_def purchase_resolved_def
        generateTicketId_def generateTransactionId_def with_db_error_def
        accessor_defs request_data text_evals scenario_defs database_defs Let_def)
  ultimately show ?thesis by blast
qed

subsection \<open>Fallback over the vehicle kinds\<close>

text \<open>
  C8 (the code departs from the claim). On \<open>tram_only\<close>, whose only vehicle is a tram
  on route \<open>R_7\<close>, a request for a bus on \<open>R_7\<close> is served by ReserveSeat, which adopts
  the tram, and refused by PurchaseTicket with 404: the purchase handler asks for
  the requested kind only.
\<close>

theorem purchase_has_no_fallback:
  "handleSeatReservation reserve_route_bus (srv_fleet\<lparr>db := tram_only\<rparr>) =
     Inr ([Response (createSuccessResponse ''Seat reserved successfully''
             [(''route'', ''R_7''), (''vehicle_uri'', ''tram://7''), (''available_seats'', ''49'')]),
           sendMulticastUpdate ''seat_reserved''
             [(''route'', ''R_7''), (''vehicle_uri'', ''tram://7''), (''available_seats'', ''49'')]],
          srv_fleet\<lparr>db := tram_only\<lparr>
            store := (store tram_only)\<lparr>vehicles := [tram7\<lparr>available_seats := 49\<rparr>]\<rparr>,
            journal := [SELECT_FROM ''vehicles'', SELECT_FROM ''vehicles'', UPDATE ''vehicles'']\<rparr>\<rparr>)
   \<and> handleTicketPurchase purchase_route_bus clock0 (srv_fleet\<lparr>db := tram_only\<rparr>) =
     Inr ([sendErrorResponse ''Vehicle/route not found'' 404],
          srv_fleet\<lparr>db := tram_only\<lparr>journal := [SELECT_FROM ''vehicles'']\<rparr>\<rparr>)"
  by (simp add: handleSeatReservation_def handleTicketPurchase_def purchase_identified_def
      accessor_defs request_data text_evals scenario_defs database_defs Let_def)

subsection \<open>Error codes of ReserveSeat\<close>

text \<open>
  C9 (the code departs from the claim). The three rejections of ReserveSeat (no
  URN, no vehicle for the URI, no seat left) are sent through the default argument
  of \<open>sendErrorResponse\<close>, and the \<open>error_code\<close> the client reads from each is -1, not
  400, 404 or 409.
\<close>

theorem reserve_seat_error_codes:
  "handleSeatReservation reserve_no_urn srv_fleet =
     Inr ([sendErrorResponse_default ''Missing user URN''], srv_fleet)
   \<and> handleSeatReservation reserve_unknown srv_fleet =
     Inr ([sendErrorResponse_default ''Vehicle/route not found''],
          srv_fleet\<lparr>db := db_fleet\<lparr>journal := [SELECT_FROM ''vehicles'']\<rparr>\<rparr>)
   \<and> handleSeatReservation reserve_bus42 (srv_fleet\<lparr>db := full_bus\<rparr>) =
     Inr ([sendErrorResponse_default ''No available seats for this route/vehicle''],
          srv_fleet\<lparr>db := full_bus\<lparr>journal := [SELECT_FROM ''vehicles'']\<rparr>\<rparr>)
   \<and> error_code_of (sendErrorResponse_default ''Missing user URN'') = Inr (- 1)
   \<and> error_code_of (sendErrorResponse_default ''Vehicle/route not found'') = Inr (- 1)
   \<and> error_code_of (sendErrorResponse_default ''No available seats for this route/vehicle'')
       = Inr (- 1)"
  by (simp add: handleSeatReservation_def accessor_defs request_data text_evals scenario_defs
      database_defs Let_def sendErrorResponse_default_def error_code_of_sendErrorResponse)

subsection \<open>Group leaders\<close>

text \<open>
  C6 (the code departs from the claim). \<open>createGroup\<close> makes the leader an active
  member (\<open>db_team\<close> is what it leaves on \<open>db_fleet\<close>), but nothing keeps the leader
  one: the leader's own DeleteGroupMember request for the leader's URN passes the
  leader check, \<open>removeUserFromGroup\<close> deletes the row, and the group is left with a
  leader who is not a member.
\<close>

theorem leader_can_be_removed:
  "createGroup team1 ''2025-01-01 12:00:00'' db_fleet =
     (True, db_team\<lparr>journal := [INSERT_INTO ''groups'', SELECT_FROM ''groups'',
                               INSERT_OR_REPLACE_INTO ''group_members'']\<rparr>)
   \<and> leader_is_member (store db_team) = True
   \<and> handleRemoveMemberFromGroup remove_leader clock0 srv_team =
     ([sendSuccessResponse ''User removed from group''],
      srv_team\<lparr>db := db_team\<lparr>
          store := (store db_team)\<lparr>group_members := []\<rparr>,
          journal := [SELECT_FROM ''groups'', SELECT_FROM ''groups'',
                      DELETE_FROM ''group_members'']\<rparr>,
        client_sessions := [(''session_1'', alice_session\<lparr>last_activity := 1735732800\<rparr>),
                            (''session_2'', bob_session)]\<rparr>)
   \<and> leader_is_member ((store db_team)\<lparr>group_members := []\<rparr>) = False"
  by (simp add: handleRemoveMemberFromGroup_def requireGroupLeader_def touch_session_def
      leader_is_member_def accessor_defs request_data scenario_defs database_defs Let_def)

subsection \<open>Leader authorization\<close>








end
